theory Spec2Isabelle
  imports Main "HOL-Library.Word"
begin

unbundle bit_operations_syntax

section \<open>Machine integers and platform constants\<close>

text \<open>
  The driver is kernel C for an LP64 target: \<^verbatim>\<open>unsigned int\<close> and \<^verbatim>\<open>__le32\<close> are
  32 bits wide, \<^verbatim>\<open>unsigned long\<close>, \<^verbatim>\<open>size_t\<close> and \<^verbatim>\<open>ssize_t\<close> are 64 bits wide.
  Fields are words of their width. Quantities the code computes in \<^verbatim>\<open>size_t\<close> or
  \<^verbatim>\<open>ssize_t\<close> from 32-bit fields (at most \<open>16 + 5 * 2^32\<close>) cannot leave the 64-bit
  range, so they are computed in \<open>nat\<close> and \<open>int\<close>.
\<close>

type_synonym u8 = "8 word"
type_synonym u32 = "32 word"
type_synonym u64 = "64 word"

text \<open>Linux error numbers, as the kernel's errno headers give them.\<close>

definition EAGAIN :: int where "EAGAIN = 11"
definition ENOMEM :: int where "ENOMEM = 12"
definition EACCES :: int where "EACCES = 13"
definition EFAULT :: int where "EFAULT = 14"
definition EBUSY :: int where "EBUSY = 16"
definition ENODEV :: int where "ENODEV = 19"
definition EINVAL :: int where "EINVAL = 22"
definition ENOSPC :: int where "ENOSPC = 28"
definition ERESTARTSYS :: int where "ERESTARTSYS = 512"

text \<open>Page geometry and the \<^verbatim>\<open>vm_flags\<close> bits of \<^verbatim>\<open>linux/mm.h\<close>.\<close>

definition PAGE_SHIFT :: nat where "PAGE_SHIFT = 12"
definition PAGE_SIZE :: nat where "PAGE_SIZE = 4096"

definition VM_WRITE :: u64 where "VM_WRITE = 0x2"
definition VM_PFNMAP :: u64 where "VM_PFNMAP = 0x400"
definition VM_IO :: u64 where "VM_IO = 0x4000"
definition VM_DONTEXPAND :: u64 where "VM_DONTEXPAND = 0x40000"
definition VM_DONTDUMP :: u64 where "VM_DONTDUMP = 0x4000000"

text \<open>The two identifier bits the driver itself defines (lines 60-61).\<close>

definition VFD_ILLEGAL_SIGN_BIT :: u32 where "VFD_ILLEGAL_SIGN_BIT = 0x80000000"
definition VFD_HOST_VFD_ID_BIT :: u32 where "VFD_HOST_VFD_ID_BIT = 0x40000000"

section \<open>Declarations of the header \<^verbatim>\<open>virtio_wl.h\<close>\<close>

text \<open>
  Modelled from the spec: the enumeration \<^verbatim>\<open>virtio_wl_ctrl_type\<close> is declared in
  \<^verbatim>\<open>virtio_wl.h\<close>, which is not among the sources. The spec (section 6) lists the
  control-message kinds: new-handle, new-context, send-data-with-handles,
  receive-data-with-handles, close, four acknowledgment/error kinds (ok, created,
  generic-error, out-of-memory) and two guest-error kinds (unknown-ID, unknown-type).
  The constructors carry the names the driver uses for them. The type field is a 32-bit
  value written by the host, so every other value is possible as well:
  \<open>VIRTIO_WL_OTHER\<close> stands for all of them (the \<^verbatim>\<open>default:\<close> branches).
\<close>

datatype virtio_wl_ctrl_type =
    VIRTIO_WL_CMD_VFD_NEW
  | VIRTIO_WL_CMD_VFD_CLOSE
  | VIRTIO_WL_CMD_VFD_SEND
  | VIRTIO_WL_CMD_VFD_RECV
  | VIRTIO_WL_CMD_VFD_NEW_CTX
  | VIRTIO_WL_RESP_OK
  | VIRTIO_WL_RESP_VFD_NEW
  | VIRTIO_WL_RESP_ERR
  | VIRTIO_WL_RESP_OUT_OF_MEMORY
  | VIRTIO_WL_RESP_INVALID_ID
  | VIRTIO_WL_RESP_INVALID_TYPE
  | VIRTIO_WL_OTHER u32

text \<open>
  The remaining constants of the header have no value in the sources or in the spec.
  They are parameters of the model: every function that uses one takes the record
  \<open>H\<close> of their values.
\<close>

record virtio_wl_h =
  SIZEOF_CTRL_VFD_RECV :: nat  \<comment> \<open>\<^verbatim>\<open>sizeof(struct virtio_wl_ctrl_vfd_recv)\<close>\<close>
  VIRTIO_WL_VFD_WRITE :: u32
  VIRTIO_WL_VFD_MAP :: u32
  VIRTIO_WL_VFD_CONTROL :: u32
  VIRTWL_MAX_ALLOC :: int

section \<open>Data model\<close>

text \<open>
  A control buffer: one page handed to or received from the host. The driver reads it
  through the struct views of the header (\<^verbatim>\<open>virtio_wl_ctrl_hdr\<close>,
  \<^verbatim>\<open>virtio_wl_ctrl_vfd_new\<close>, \<^verbatim>\<open>virtio_wl_ctrl_vfd_recv\<close>), whose layouts are not
  among the sources; the record keeps the fields the driver names, and \<open>trailer\<close> is
  the bytes that follow the fixed-size \<^verbatim>\<open>virtio_wl_ctrl_vfd_recv\<close> in the buffer
  (first \<open>vfd_count\<close> little-endian identifiers, then the payload).
\<close>

record ctrl_buf =
  hdr_type :: virtio_wl_ctrl_type  \<comment> \<open>\<^verbatim>\<open>hdr.type\<close>\<close>
  vfd_id :: u32
  ctrl_flags :: u32  \<comment> \<open>\<^verbatim>\<open>flags\<close> of \<^verbatim>\<open>virtio_wl_ctrl_vfd_new\<close>\<close>
  ctrl_pfn :: u64  \<comment> \<open>\<^verbatim>\<open>pfn\<close> of \<^verbatim>\<open>virtio_wl_ctrl_vfd_new\<close>\<close>
  ctrl_size :: u32  \<comment> \<open>\<^verbatim>\<open>size\<close> of \<^verbatim>\<open>virtio_wl_ctrl_vfd_new\<close>\<close>
  vfd_count :: u32  \<comment> \<open>\<^verbatim>\<open>vfd_count\<close> of \<^verbatim>\<open>virtio_wl_ctrl_vfd_recv\<close>\<close>
  trailer :: "u8 list"

text \<open>\<^verbatim>\<open>struct virtwl_vfd_qentry\<close> (lines 63-69), without the list linkage.\<close>

record virtwl_vfd_qentry =
  hdr :: ctrl_buf
  len :: u32
  vfd_offset :: u32
  data_offset :: u32

text \<open>
  \<^verbatim>\<open>struct virtwl_vfd\<close> (lines 71-83). The fields \<^verbatim>\<open>id\<close> and \<^verbatim>\<open>size\<close> are suffixed;
  \<open>in_queue\<close> is the linked list as a list, head first. Locks and wait queues are not
  state of the model: every function is one thread's run, and the points where the C
  code sleeps take what happens meanwhile from an explicit script.
\<close>

record virtwl_vfd =
  id_vfd :: u32
  flags :: u32
  pfn :: u64
  size_vfd :: u32
  in_queue :: "virtwl_vfd_qentry list"

text \<open>
  The transport (a \<^verbatim>\<open>struct virtqueue\<close> of the kernel's virtio core) at its interface:
  a count of free slots, the buffers exposed to the host, the buffers the host has
  completed (with the length it wrote), and the number of notifications sent. A
  submission takes one slot and fails with \<open>-ENOSPC\<close> when none is free; fetching a
  completed buffer gives its slot back.
\<close>

record virtqueue =
  num_free :: nat
  avail :: "ctrl_buf list"
  used :: "(ctrl_buf \<times> u32) list"
  kicks :: nat

definition virtqueue_add :: "virtqueue \<Rightarrow> ctrl_buf \<Rightarrow> int \<times> virtqueue" where
  "virtqueue_add vq b =
     (if num_free vq = 0 then (- ENOSPC, vq)
      else (0, vq\<lparr>num_free := num_free vq - 1, avail := avail vq @ [b]\<rparr>))"

definition virtqueue_get_buf :: "virtqueue \<Rightarrow> ((ctrl_buf \<times> u32) \<times> virtqueue) option" where
  "virtqueue_get_buf vq =
     (case used vq of
        [] \<Rightarrow> None
      | b # bs \<Rightarrow> Some (b, vq\<lparr>used := bs, num_free := num_free vq + 1\<rparr>))"

definition virtqueue_kick :: "virtqueue \<Rightarrow> virtqueue" where
  "virtqueue_kick vq = vq\<lparr>kicks := kicks vq + 1\<rparr>"

text \<open>The messages the driver prints with \<^verbatim>\<open>printk\<close>, one constructor per format string.\<close>

datatype printk =
    Failed_to_give_inbuf int
  | Invalid_id u32
  | Failed_to_place_vfd int
  | Recv_unknown_vfd u32
  | Failed_to_allocate_qentry
  | Unhandled_ctrl_command virtio_wl_ctrl_type
  | Failed_to_return_inbuf int
  | Unrecognized_id u32
  | Failed_to_queue_close u32 int

text \<open>
  \<^verbatim>\<open>struct virtwl_info\<close> (lines 85-100): the two queues and the handle table
  (\<^verbatim>\<open>struct idr vfds\<close>, from identifier to VFD pointer). Two pieces of kernel state
  travel with it: \<open>vfd_objs\<close>, the live \<^verbatim>\<open>struct virtwl_vfd\<close> objects by address
  (\<^verbatim>\<open>kzalloc\<close> adds one, \<^verbatim>\<open>kfree\<close> removes it), and \<open>klog\<close>, the kernel log.
\<close>

record virtwl_info =
  vq_in :: virtqueue
  vq_out :: virtqueue
  vfds :: "int \<rightharpoonup> nat"
  vfd_objs :: "nat \<rightharpoonup> virtwl_vfd"
  klog :: "printk list"

text \<open>
  What a kernel function does when it is handed a pointer that is no object (an
  \<^verbatim>\<open>ERR_PTR\<close> or a freed address) is a fault, \<open>Oops\<close>; \<open>Ret\<close> is a return.
\<close>

datatype 'a kres = Oops | Ret 'a

section \<open>The handle table\<close>

text \<open>
  The kernel's \<^verbatim>\<open>idr\<close> at its interface. \<^verbatim>\<open>idr_alloc(idr, ptr, start, end)\<close> takes the
  smallest free identifier in \<open>[start, end)\<close> (up to \<open>INT_MAX\<close> when \<open>end \<le> 0\<close>),
  \<open>-ENOSPC\<close> when there is none, \<open>-EINVAL\<close> for a negative start, \<open>-ENOMEM\<close> when its
  own allocation fails (\<open>mem\<close> is false).
\<close>

definition INT_MAX :: int where "INT_MAX = 2147483647"

function idr_get_empty_slot :: "(int \<rightharpoonup> nat) \<Rightarrow> int \<Rightarrow> int \<Rightarrow> int option" where
  "idr_get_empty_slot t i mx =
     (if mx < i then None
      else if t i = None then Some i
      else idr_get_empty_slot t (i + 1) mx)"
  by pat_completeness auto
termination
  by (relation "measure (\<lambda>(t, i, mx). nat (mx + 1 - i))") auto

definition idr_alloc ::
  "(int \<rightharpoonup> nat) \<Rightarrow> bool \<Rightarrow> nat \<Rightarrow> int \<Rightarrow> int \<Rightarrow> int \<times> (int \<rightharpoonup> nat)" where
  "idr_alloc t mem ptr start end' =
     (let mx = (if end' > 0 then end' - 1 else INT_MAX)
      in if start < 0 then (- EINVAL, t)
         else if \<not> mem then (- ENOMEM, t)
         else (case idr_get_empty_slot t start mx of
                 None \<Rightarrow> (- ENOSPC, t)
               | Some i \<Rightarrow> (i, t(i \<mapsto> ptr))))"

definition idr_find :: "(int \<rightharpoonup> nat) \<Rightarrow> int \<Rightarrow> nat option" where
  "idr_find t i = (if i < 0 then None else t i)"

definition idr_remove :: "(int \<rightharpoonup> nat) \<Rightarrow> int \<Rightarrow> (int \<rightharpoonup> nat)" where
  "idr_remove t i = t(i := None)"

section \<open>Host acknowledgments\<close>

text \<open>\<^verbatim>\<open>virtwl_resp_err\<close> (lines 107-122); the result is the C return value.\<close>

fun virtwl_resp_err :: "virtio_wl_ctrl_type \<Rightarrow> int" where
  "virtwl_resp_err VIRTIO_WL_RESP_OK = 0"
| "virtwl_resp_err VIRTIO_WL_RESP_VFD_NEW = 0"
| "virtwl_resp_err VIRTIO_WL_RESP_ERR = - ENODEV"
| "virtwl_resp_err VIRTIO_WL_RESP_OUT_OF_MEMORY = - ENOMEM"
| "virtwl_resp_err VIRTIO_WL_RESP_INVALID_ID = - EINVAL"
| "virtwl_resp_err VIRTIO_WL_RESP_INVALID_TYPE = - EINVAL"
| "virtwl_resp_err _ = - EINVAL"

section \<open>Returning receive buffers\<close>

text \<open>\<^verbatim>\<open>vq_return_inbuf_locked\<close> (lines 124-137), always called on the inbound queue.\<close>

definition vq_return_inbuf_locked :: "virtwl_info \<Rightarrow> ctrl_buf \<Rightarrow> int \<times> virtwl_info" where
  "vq_return_inbuf_locked vi buffer =
     (case virtqueue_add (vq_in vi) buffer of
        (ret, vq) \<Rightarrow>
          if ret \<noteq> 0 then (ret, vi\<lparr>vq_in := vq, klog := klog vi @ [Failed_to_give_inbuf ret]\<rparr>)
          else (0, vi\<lparr>vq_in := vq\<rparr>))"

section \<open>Draining a pending queue\<close>

text \<open>
  \<^verbatim>\<open>vfd_qentry_free_if_empty\<close> (lines 415-442). The result is what is left of the
  entry's node in the pending queue (\<open>[qentry]\<close> when it stays linked, \<open>[]\<close> after
  \<^verbatim>\<open>list_del\<close>) and the device state.
\<close>

definition vfd_qentry_free_if_empty ::
  "virtio_wl_h \<Rightarrow> virtwl_info \<Rightarrow> virtwl_vfd_qentry \<Rightarrow> virtwl_vfd_qentry list \<times> virtwl_info" where
  "vfd_qentry_free_if_empty H vi qentry =
     (let recv = hdr qentry;
          data_len = int (unat (len qentry)) - int (SIZEOF_CTRL_VFD_RECV H)
                     - int (unat (vfd_count recv)) * 4
      in if hdr_type recv = VIRTIO_WL_CMD_VFD_RECV \<and>
            (vfd_offset qentry < vfd_count recv \<or> int (unat (data_offset qentry)) < data_len)
         then ([qentry], vi)
         else (case vq_return_inbuf_locked vi recv of
                 (ret, vi') \<Rightarrow> ([], vi'\<lparr>vq_in := virtqueue_kick (vq_in vi')\<rparr>)))"

text \<open>
  \<^verbatim>\<open>vfd_out_locked\<close> (lines 444-481). \<open>access off n\<close> tells whether \<^verbatim>\<open>copy_to_user\<close> of
  \<open>n\<close> bytes to \<^verbatim>\<open>buffer + off\<close> succeeds; \<open>cap\<close> is the parameter \<^verbatim>\<open>len\<close>; \<open>out\<close> is
  what has been copied to the user buffer so far, \<open>read_count\<close> bytes. The result is the
  return value, the bytes copied, the pending queue and the device state. Inside the
  loop \<open>read_count\<close> is never negative, so the unsigned comparison with \<^verbatim>\<open>len\<close> is the
  comparison of the values.
\<close>

fun vfd_out_loop ::
  "virtio_wl_h \<Rightarrow> (nat \<Rightarrow> nat \<Rightarrow> bool) \<Rightarrow> nat \<Rightarrow> virtwl_info \<Rightarrow> int \<Rightarrow> u8 list \<Rightarrow>
   virtwl_vfd_qentry list \<Rightarrow> int \<times> u8 list \<times> virtwl_vfd_qentry list \<times> virtwl_info" where
  "vfd_out_loop H access cap vi read_count out [] = (read_count, out, [], vi)"
| "vfd_out_loop H access cap vi read_count out (qentry # rest) =
     (let recv = hdr qentry;
          recv_offset = SIZEOF_CTRL_VFD_RECV H + unat (vfd_count recv) * 4
                        + unat (data_offset qentry);
          buf = drop (recv_offset - SIZEOF_CTRL_VFD_RECV H) (trailer recv);
          to_read = int (unat (len qentry)) - int recv_offset
      in if int cap \<le> read_count then (read_count, out, qentry # rest, vi)
         else if to_read \<le> 0 \<or> hdr_type recv \<noteq> VIRTIO_WL_CMD_VFD_RECV then
           (case vfd_out_loop H access cap vi read_count out rest of
              (r, out', q, vi') \<Rightarrow> (r, out', qentry # q, vi'))
         else
           (let to_read = (if to_read + read_count > int cap then int cap - read_count
                           else to_read)
            in if \<not> access (nat read_count) (nat to_read) then
                 ((if read_count = 0 then - EFAULT else read_count), out, qentry # rest, vi)
               else
                 (case vfd_qentry_free_if_empty H vi
                         (qentry\<lparr>data_offset := data_offset qentry + word_of_int to_read\<rparr>) of
                    (kept, vi') \<Rightarrow>
                      (case vfd_out_loop H access cap vi' (read_count + to_read)
                              (out @ take (nat to_read) buf) rest of
                         (r, out', q, vi'') \<Rightarrow> (r, out', kept @ q, vi'')))))"

definition vfd_out_locked ::
  "virtio_wl_h \<Rightarrow> (nat \<Rightarrow> nat \<Rightarrow> bool) \<Rightarrow> nat \<Rightarrow> virtwl_info \<Rightarrow> virtwl_vfd_qentry list \<Rightarrow>
   int \<times> u8 list \<times> virtwl_vfd_qentry list \<times> virtwl_info" where
  "vfd_out_locked H access cap vi q = vfd_out_loop H access cap vi 0 [] q"

text \<open>
  \<^verbatim>\<open>vfd_out_vfds_locked\<close> (lines 484-525). \<open>vfds_le recv k\<close> is the \<open>k\<close>-th identifier
  after the fixed-size struct, read as little-endian. The inner \<^verbatim>\<open>for\<close> loop runs over
  the identifiers it reads; \<open>ptrs\<close> is the array \<^verbatim>\<open>vfds\<close> up to \<^verbatim>\<open>read_count\<close>.
\<close>

definition le32_to_cpu :: "u8 list \<Rightarrow> u32" where
  "le32_to_cpu bs = foldr (\<lambda>b acc. ucast b + 256 * acc) bs 0"

definition vfds_le :: "ctrl_buf \<Rightarrow> nat \<Rightarrow> u32" where
  "vfds_le recv k = le32_to_cpu (take 4 (drop (4 * k) (trailer recv)))"

fun vfds_for_loop ::
  "virtwl_info \<Rightarrow> u32 list \<Rightarrow> nat list \<Rightarrow> virtwl_vfd_qentry \<Rightarrow>
   nat list \<times> virtwl_vfd_qentry \<times> virtwl_info" where
  "vfds_for_loop vi [] ptrs qentry = (ptrs, qentry, vi)"
| "vfds_for_loop vi (i # ids) ptrs qentry =
     (case idr_find (vfds vi) (sint i) of
        Some p \<Rightarrow>
          vfds_for_loop vi ids (ptrs @ [p]) (qentry\<lparr>vfd_offset := vfd_offset qentry + 1\<rparr>)
      | None \<Rightarrow>
          vfds_for_loop (vi\<lparr>klog := klog vi @ [Unrecognized_id i]\<rparr>) ids ptrs
            (qentry\<lparr>vfd_offset := vfd_offset qentry + 1\<rparr>))"

fun vfd_out_vfds_loop ::
  "virtio_wl_h \<Rightarrow> nat \<Rightarrow> virtwl_info \<Rightarrow> nat list \<Rightarrow> virtwl_vfd_qentry list \<Rightarrow>
   nat list \<times> virtwl_vfd_qentry list \<times> virtwl_info" where
  "vfd_out_vfds_loop H count vi ptrs [] = (ptrs, [], vi)"
| "vfd_out_vfds_loop H count vi ptrs (qentry # rest) =
     (let recv = hdr qentry;
          vfds_to_read = int (unat (vfd_count recv - vfd_offset qentry))
      in if count \<le> length ptrs then (ptrs, qentry # rest, vi)
         else if vfds_to_read \<le> 0 \<or> hdr_type recv \<noteq> VIRTIO_WL_CMD_VFD_RECV then
           (case vfd_out_vfds_loop H count vi ptrs rest of
              (ptrs', q, vi') \<Rightarrow> (ptrs', qentry # q, vi'))
         else
           (let vfds_to_read = (if vfds_to_read + int (length ptrs) > int count
                                then int count - int (length ptrs) else vfds_to_read)
            in case vfds_for_loop vi
                      (map (\<lambda>i. vfds_le recv (unat (vfd_offset qentry) + i))
                         [0 ..< nat vfds_to_read])
                      ptrs qentry of
                 (ptrs', qentry', vi') \<Rightarrow>
                   (case vfd_qentry_free_if_empty H vi' qentry' of
                      (kept, vi'') \<Rightarrow>
                        (case vfd_out_vfds_loop H count vi'' ptrs' rest of
                           (ptrs'', q, vi''') \<Rightarrow> (ptrs'', kept @ q, vi''')))))"

definition vfd_out_vfds_locked ::
  "virtio_wl_h \<Rightarrow> nat \<Rightarrow> virtwl_info \<Rightarrow> virtwl_vfd_qentry list \<Rightarrow>
   nat list \<times> virtwl_vfd_qentry list \<times> virtwl_info" where
  "vfd_out_vfds_locked H count vi q = vfd_out_vfds_loop H count vi [] q"

section \<open>VFD objects\<close>

text \<open>
  A pointer to a \<^verbatim>\<open>struct virtwl_vfd\<close>: \<open>NULL\<close>, an error pointer, or the address of an
  object. \<^verbatim>\<open>ERR_PTR(0)\<close> is \<open>NULL\<close>.
\<close>

datatype vfd_ptr = NULL | Err int | Obj nat

definition ERR_PTR :: "int \<Rightarrow> vfd_ptr" where
  "ERR_PTR e = (if e = 0 then NULL else Err e)"

text \<open>
  \<^verbatim>\<open>virtwl_vfd_alloc\<close> (lines 357-370). \<open>kz\<close> is what \<^verbatim>\<open>kzalloc\<close> returns: no memory, or
  the address of the new zeroed object. On failure the function returns
  \<^verbatim>\<open>ERR_PTR(-ENOMEM)\<close>, not \<open>NULL\<close>.
\<close>

definition virtwl_vfd_alloc :: "virtwl_info \<Rightarrow> nat option \<Rightarrow> vfd_ptr \<times> virtwl_info" where
  "virtwl_vfd_alloc vi kz =
     (case kz of
        None \<Rightarrow> (ERR_PTR (- ENOMEM), vi)
      | Some p \<Rightarrow>
          (Obj p, vi\<lparr>vfd_objs := (vfd_objs vi)(p \<mapsto>
             \<lparr>id_vfd = 0, flags = 0, pfn = 0, size_vfd = 0, in_queue = []\<rparr>)\<rparr>))"

text \<open>\<^verbatim>\<open>virtwl_vfd_lock_unlink\<close> (lines 373-381) reads \<^verbatim>\<open>vfd->id\<close> through the pointer.\<close>

definition virtwl_vfd_lock_unlink :: "virtwl_info \<Rightarrow> nat \<Rightarrow> virtwl_info kres" where
  "virtwl_vfd_lock_unlink vi p =
     (case vfd_objs vi p of
        None \<Rightarrow> Oops
      | Some vfd \<Rightarrow> Ret (vi\<lparr>vfds := idr_remove (vfds vi) (sint (id_vfd vfd))\<rparr>))"

text \<open>\<^verbatim>\<open>virtwl_vfd_free\<close> (lines 388-391).\<close>

definition virtwl_vfd_free :: "virtwl_info \<Rightarrow> nat \<Rightarrow> virtwl_info" where
  "virtwl_vfd_free vi p = vi\<lparr>vfd_objs := (vfd_objs vi)(p := None)\<rparr>"

text \<open>
  \<^verbatim>\<open>virtwl_vfd_remove\<close> (lines 396-413): unlink, give every queued buffer back to the
  inbound queue (the result of \<^verbatim>\<open>vq_return_inbuf_locked\<close> is not looked at), free.
\<close>

definition virtwl_vfd_remove :: "virtwl_info \<Rightarrow> nat \<Rightarrow> virtwl_info kres" where
  "virtwl_vfd_remove vi p =
     (case vfd_objs vi p of
        None \<Rightarrow> Oops
      | Some vfd \<Rightarrow>
          (case virtwl_vfd_lock_unlink vi p of
             Oops \<Rightarrow> Oops
           | Ret vi1 \<Rightarrow>
               Ret (virtwl_vfd_free
                      (fold (\<lambda>qentry v. snd (vq_return_inbuf_locked v (hdr qentry)))
                         (in_queue vfd) vi1) p)))"

section \<open>The outbound sender\<close>

text \<open>
  \<^verbatim>\<open>vq_queue_out\<close> (lines 139-164). When the queue is full a blocking caller sleeps in
  \<^verbatim>\<open>wait_event_timeout\<close>. What ends each sleep comes from a script: \<open>Timed_out\<close> when
  the second passes with no slot free (the call returns 0), \<open>Woken vq\<close> when a slot was
  seen free, \<open>vq\<close> being the outbound queue as found once the lock is taken again. A
  script that ends while the caller sleeps gives no result.
\<close>

datatype wake = Timed_out | Woken virtqueue

fun vq_queue_out ::
  "virtwl_info \<Rightarrow> ctrl_buf \<Rightarrow> bool \<Rightarrow> wake list \<Rightarrow> (int \<times> virtwl_info) option" where
  "vq_queue_out vi req nonblock ws =
     (case virtqueue_add (vq_out vi) req of
        (ret, vq) \<Rightarrow>
          if ret = - ENOSPC then
            (if nonblock then Some (- EAGAIN, vi)
             else (case ws of
                     [] \<Rightarrow> None
                   | Timed_out # ws' \<Rightarrow> Some (- EBUSY, vi)
                   | Woken vq' # ws' \<Rightarrow> vq_queue_out (vi\<lparr>vq_out := vq'\<rparr>) req nonblock ws'))
          else if ret = 0 then Some (0, vi\<lparr>vq_out := virtqueue_kick vq\<rparr>)
          else Some (ret, vi\<lparr>vq_out := vq\<rparr>))"

text \<open>
  The host's acknowledgment of a submitted request, as \<^verbatim>\<open>wait_for_completion\<close> finds
  the outbound queue afterwards: the host has taken the request and
  \<^verbatim>\<open>vq_out_work_handler\<close> (lines 324-343) has fetched the completed buffer, which gives
  the slot back, before it signals the completion.
\<close>

definition virtqueue_complete :: "virtqueue \<Rightarrow> ctrl_buf \<Rightarrow> virtqueue" where
  "virtqueue_complete vq req = vq\<lparr>avail := remove1 req (avail vq), num_free := num_free vq + 1\<rparr>"

section \<open>The inbound dispatcher\<close>

text \<open>
  \<^verbatim>\<open>vq_handle_new\<close> (lines 192-227). \<open>kz\<close> is the result of \<^verbatim>\<open>kzalloc\<close> for the VFD and
  \<open>mem\<close> tells whether \<^verbatim>\<open>idr_alloc\<close> gets its memory. The identifier reaches
  \<^verbatim>\<open>idr_alloc\<close> as \<^verbatim>\<open>int\<close>. After a failed \<^verbatim>\<open>kzalloc\<close> the pointer is
  \<^verbatim>\<open>ERR_PTR(-ENOMEM)\<close>, which the test \<^verbatim>\<open>!vfd\<close> lets through; the next use of it
  (\<^verbatim>\<open>kfree\<close> or the store to \<^verbatim>\<open>vfd->id\<close>) is a fault.
\<close>

definition vq_handle_new ::
  "virtwl_info \<Rightarrow> ctrl_buf \<Rightarrow> nat option \<Rightarrow> bool \<Rightarrow> (bool \<times> virtwl_info) kres" where
  "vq_handle_new vi new kz mem =
     (let id = vfd_id new
      in if id = 0 then Ret (True, vi)
         else if id AND VFD_HOST_VFD_ID_BIT = 0 \<or> id AND VFD_ILLEGAL_SIGN_BIT \<noteq> 0 then
           Ret (True, vi\<lparr>klog := klog vi @ [Invalid_id id]\<rparr>)
         else
           (case virtwl_vfd_alloc vi kz of
              (NULL, vi1) \<Rightarrow> Ret (True, vi1)
            | (Err e, vi1) \<Rightarrow> Oops
            | (Obj p, vi1) \<Rightarrow>
                (case idr_alloc (vfds vi1) mem p (sint id) (sint (id + 1)) of
                   (ret, t) \<Rightarrow>
                     if ret \<le> 0 then
                       Ret (True, (virtwl_vfd_free (vi1\<lparr>vfds := t\<rparr>) p)
                                    \<lparr>klog := klog vi1 @ [Failed_to_place_vfd ret]\<rparr>)
                     else
                       (case vfd_objs vi1 p of
                          None \<Rightarrow> Oops
                        | Some vfd \<Rightarrow>
                            Ret (True, vi1\<lparr>vfds := t, vfd_objs := (vfd_objs vi1)(p \<mapsto>
                              vfd\<lparr>id_vfd := id, size_vfd := ctrl_size new,
                                  pfn := ctrl_pfn new, flags := ctrl_flags new\<rparr>)\<rparr>)))))"

text \<open>
  \<^verbatim>\<open>vq_handle_recv\<close> (lines 229-262). \<open>kz\<close> tells whether \<^verbatim>\<open>kzalloc\<close> of the queue
  entry succeeds; the new entry has both cursors at 0.
\<close>

definition vq_handle_recv ::
  "virtwl_info \<Rightarrow> ctrl_buf \<Rightarrow> u32 \<Rightarrow> bool \<Rightarrow> (bool \<times> virtwl_info) kres" where
  "vq_handle_recv vi recv n kz =
     (case idr_find (vfds vi) (sint (vfd_id recv)) of
        None \<Rightarrow> Ret (True, vi\<lparr>klog := klog vi @ [Recv_unknown_vfd (vfd_id recv)]\<rparr>)
      | Some p \<Rightarrow>
          (case vfd_objs vi p of
             None \<Rightarrow> Oops
           | Some vfd \<Rightarrow>
               if \<not> kz then Ret (True, vi\<lparr>klog := klog vi @ [Failed_to_allocate_qentry]\<rparr>)
               else Ret (False, vi\<lparr>vfd_objs := (vfd_objs vi)(p \<mapsto>
                      vfd\<lparr>in_queue := in_queue vfd @
                        [\<lparr>hdr = recv, len = n, vfd_offset = 0, data_offset = 0\<rparr>]\<rparr>)\<rparr>)))"

text \<open>
  \<^verbatim>\<open>vq_dispatch_hdr\<close> (lines 264-299). The allocations of the handlers come from
  \<open>env\<close>. The result tells whether the queue is to be kicked.
\<close>

record alloc_env =
  kz_vfd :: "nat option"
  idr_mem :: bool
  kz_qentry :: bool

definition vq_dispatch_hdr ::
  "virtwl_info \<Rightarrow> u32 \<Rightarrow> ctrl_buf \<Rightarrow> alloc_env \<Rightarrow> (bool \<times> virtwl_info) kres" where
  "vq_dispatch_hdr vi n hdr' env =
     (case (case hdr_type hdr' of
              VIRTIO_WL_CMD_VFD_NEW \<Rightarrow> vq_handle_new vi hdr' (kz_vfd env) (idr_mem env)
            | VIRTIO_WL_CMD_VFD_RECV \<Rightarrow> vq_handle_recv vi hdr' n (kz_qentry env)
            | t \<Rightarrow> Ret (True, vi\<lparr>klog := klog vi @ [Unhandled_ctrl_command t]\<rparr>)) of
        Oops \<Rightarrow> Oops
      | Ret (return_vq, vi1) \<Rightarrow>
          if \<not> return_vq then Ret (False, vi1)
          else (case vq_return_inbuf_locked vi1 hdr' of
                  (ret, vi2) \<Rightarrow>
                    if ret \<noteq> 0 then
                      Ret (True, vi2\<lparr>klog := klog vi2 @ [Failed_to_return_inbuf ret]\<rparr>)
                    else Ret (True, vi2)))"

text \<open>
  One turn of the loop of \<^verbatim>\<open>vq_in_work_handler\<close> (lines 312-317): fetch the next
  completed buffer and dispatch it; no result when the host has completed none.
\<close>

definition vq_in_work_step ::
  "virtwl_info \<Rightarrow> alloc_env \<Rightarrow> (bool \<times> virtwl_info) kres option" where
  "vq_in_work_step vi env =
     (case virtqueue_get_buf (vq_in vi) of
        None \<Rightarrow> None
      | Some ((buffer, n), vq) \<Rightarrow> Some (vq_dispatch_hdr (vi\<lparr>vq_in := vq\<rparr>) n buffer env))"

section \<open>Close\<close>

text \<open>
  Where a call that may block ends: it returns a value, or it stays asleep in
  \<^verbatim>\<open>wait_event_timeout\<close> of the submission (the script having ended), or it stays in
  \<^verbatim>\<open>wait_for_completion\<close>, the device being in the given state while it waits.
\<close>

datatype 'a blocking = Returns 'a | Asleep_in_queue_out | Waits_for_completion virtwl_info

text \<open>
  \<^verbatim>\<open>do_vfd_close\<close> (lines 528-562). \<open>kz\<close> tells whether \<^verbatim>\<open>kzalloc\<close> of the request
  succeeds, \<open>ws\<close> is the script of the blocking submission, and \<open>ack\<close> tells whether the
  host ever completes the request: \<^verbatim>\<open>wait_for_completion\<close> has no timeout, so without
  an acknowledgment the call stays there, with the device as the submission left it.
\<close>

definition do_vfd_close ::
  "virtwl_info \<Rightarrow> nat \<Rightarrow> bool \<Rightarrow> wake list \<Rightarrow> bool \<Rightarrow> (int \<times> virtwl_info) kres blocking" where
  "do_vfd_close vi p kz ws ack =
     (case vfd_objs vi p of
        None \<Rightarrow> Returns Oops
      | Some vfd \<Rightarrow>
          if \<not> kz then Returns (Ret (- ENOMEM, vi))
          else
            (let ctrl_close = \<lparr>hdr_type = VIRTIO_WL_CMD_VFD_CLOSE, vfd_id = id_vfd vfd,
                               ctrl_flags = 0, ctrl_pfn = 0, ctrl_size = 0, vfd_count = 0,
                               trailer = []\<rparr>
             in case vq_queue_out vi ctrl_close False ws of
                  None \<Rightarrow> Asleep_in_queue_out
                | Some (ret, vi1) \<Rightarrow>
                    if ret \<noteq> 0 then
                      Returns (Ret (ret, vi1\<lparr>klog := klog vi1 @
                                           [Failed_to_queue_close (id_vfd vfd) ret]\<rparr>))
                    else if \<not> ack then Waits_for_completion vi1
                    else
                      (case virtwl_vfd_remove
                              (vi1\<lparr>vq_out := virtqueue_complete (vq_out vi1) ctrl_close\<rparr>) p of
                         Oops \<Rightarrow> Returns Oops
                       | Ret vi2 \<Rightarrow> Returns (Ret (0, vi2)))))"

section \<open>Receive\<close>

text \<open>
  \<^verbatim>\<open>virtwl_vfd_recv\<close> (lines 564-605). \<open>count\<close> is \<^verbatim>\<open>*vfd_count\<close>, 0 when there is no
  room for handles (or a pointer is \<open>NULL\<close>). A blocking caller that finds the queue
  empty sleeps in \<^verbatim>\<open>wait_event_interruptible\<close>; what ends each sleep comes from a
  script: \<open>Interrupted\<close> by a signal, or \<open>Resumed vi'\<close>, the device being in state
  \<open>vi'\<close> once both locks are taken again. Both \<^verbatim>\<open>while\<close> loops are the recursion: each
  call tests the queue and, when it is not empty, runs the two drains once. The result
  is the return value, the bytes copied to the user buffer and the VFD pointers stored
  in \<^verbatim>\<open>vfds\<close>; no result is a caller that never returns.
\<close>

datatype sleep = Interrupted | Resumed virtwl_info

partial_function (option) virtwl_vfd_recv ::
  "virtio_wl_h \<Rightarrow> bool \<Rightarrow> (nat \<Rightarrow> nat \<Rightarrow> bool) \<Rightarrow> nat \<Rightarrow> nat \<Rightarrow> nat \<Rightarrow> sleep list \<Rightarrow>
   virtwl_info \<Rightarrow> ((int \<times> u8 list \<times> nat list) \<times> virtwl_info) kres option" where
  "virtwl_vfd_recv H nonblock access cap count p sl vi =
     (case vfd_objs vi p of
        None \<Rightarrow> Some Oops
      | Some vfd \<Rightarrow>
          if in_queue vfd = [] then
            (if nonblock then Some (Ret ((- EAGAIN, [], []), vi))
             else (case sl of
                     [] \<Rightarrow> None
                   | Interrupted # sl' \<Rightarrow> Some (Ret ((- ERESTARTSYS, [], []), vi))
                   | Resumed vi' # sl' \<Rightarrow>
                       virtwl_vfd_recv H nonblock access cap count p sl' vi'))
          else
            (case vfd_out_locked H access cap vi (in_queue vfd) of
               (read_count, out, q, vi1) \<Rightarrow>
                 if read_count < 0 then
                   Some (Ret ((read_count, out, []),
                              vi1\<lparr>vfd_objs := (vfd_objs vi1)(p \<mapsto> vfd\<lparr>in_queue := q\<rparr>)\<rparr>))
                 else
                   (case (if count \<noteq> 0 then vfd_out_vfds_locked H count vi1 q
                          else ([], q, vi1)) of
                      (ptrs, q', vi2) \<Rightarrow>
                        if read_count = 0 \<and> length ptrs = 0 then
                          virtwl_vfd_recv H nonblock access cap count p sl
                            (vi2\<lparr>vfd_objs := (vfd_objs vi2)(p \<mapsto> vfd\<lparr>in_queue := q'\<rparr>)\<rparr>)
                        else
                          Some (Ret ((read_count, out, ptrs),
                                     vi2\<lparr>vfd_objs := (vfd_objs vi2)(p \<mapsto>
                                           vfd\<lparr>in_queue := q'\<rparr>)\<rparr>)))))"

section \<open>Memory mapping\<close>

text \<open>
  \<^verbatim>\<open>virtwl_vfd_mmap\<close> (lines 607-640) on the fields of \<^verbatim>\<open>struct vm_area_struct\<close> it
  uses, all \<^verbatim>\<open>unsigned long\<close>. \<^verbatim>\<open>PAGE_ALIGN\<close> is computed in the type of its argument,
  the 32-bit \<^verbatim>\<open>vfd->size\<close>. \<open>io_remap\<close> is the result of \<^verbatim>\<open>io_remap_pfn_range\<close>.
\<close>

record vm_area_struct =
  vm_start :: u64
  vm_end :: u64
  vm_pgoff :: u64
  vm_flags :: u64

definition PAGE_ALIGN :: "u32 \<Rightarrow> u32" where
  "PAGE_ALIGN x = (x + (word_of_nat PAGE_SIZE - 1)) AND NOT (word_of_nat PAGE_SIZE - 1)"

definition virtwl_vfd_mmap ::
  "virtio_wl_h \<Rightarrow> virtwl_vfd \<Rightarrow> vm_area_struct \<Rightarrow> int \<Rightarrow> int \<times> vm_area_struct" where
  "virtwl_vfd_mmap H vfd vma io_remap =
     (let vm_size = vm_end vma - vm_start vma
      in if flags vfd AND VIRTIO_WL_VFD_MAP H = 0 then (- EACCES, vma)
         else if vm_flags vma AND VM_WRITE \<noteq> 0 \<and> flags vfd AND VIRTIO_WL_VFD_WRITE H = 0 then
           (- EACCES, vma)
         else if vm_size + push_bit PAGE_SHIFT (vm_pgoff vma) > ucast (PAGE_ALIGN (size_vfd vfd))
           then (- EINVAL, vma)
         else if io_remap \<noteq> 0 then (io_remap, vma)
         else (0, vma\<lparr>vm_flags := vm_flags vma OR VM_PFNMAP OR VM_IO OR VM_DONTEXPAND
                                     OR VM_DONTDUMP\<rparr>))"

section \<open>New\<close>

text \<open>
  Modelled from the spec: the request kinds \<^verbatim>\<open>VIRTWL_IOCTL_NEW_CTX\<close> and
  \<^verbatim>\<open>VIRTWL_IOCTL_NEW_ALLOC\<close> are declared in the header that is not among the sources;
  the spec (section 6) names the two, create-context and create-allocation. The
  argument is a 32-bit value of the caller, so any other value is possible.
\<close>

datatype virtwl_ioctl_new_type =
    VIRTWL_IOCTL_NEW_CTX
  | VIRTWL_IOCTL_NEW_ALLOC
  | VIRTWL_IOCTL_NEW_OTHER u32

text \<open>
  \<^verbatim>\<open>do_new\<close> (lines 781-868). The environment: whether \<^verbatim>\<open>kzalloc\<close> of the request
  succeeds, the result of \<^verbatim>\<open>kzalloc\<close> for the VFD, whether \<^verbatim>\<open>idr_alloc\<close> gets its
  memory, the script of the submission, and the request buffer as the host's
  acknowledgment leaves it (none when the host never completes the request). After a
  failed \<^verbatim>\<open>kzalloc\<close> of the VFD the pointer is \<^verbatim>\<open>ERR_PTR(-ENOMEM)\<close>, which the test
  \<^verbatim>\<open>!vfd\<close> lets through to \<^verbatim>\<open>mutex_lock(&vfd->lock)\<close>.
\<close>

record new_env =
  kz_ctrl_new :: bool
  kz_new_vfd :: "nat option"
  idr_new_mem :: bool
  out_wakes :: "wake list"
  host_resp :: "ctrl_buf option"

definition do_new_remove_vfd :: "virtwl_info \<Rightarrow> nat \<Rightarrow> int \<Rightarrow> (vfd_ptr \<times> virtwl_info) kres" where
  "do_new_remove_vfd vi p ret =
     (case virtwl_vfd_lock_unlink vi p of
        Oops \<Rightarrow> Oops
      | Ret vi' \<Rightarrow> Ret (ERR_PTR ret, virtwl_vfd_free vi' p))"

definition do_new ::
  "virtio_wl_h \<Rightarrow> virtwl_info \<Rightarrow> virtwl_ioctl_new_type \<Rightarrow> u32 \<Rightarrow> bool \<Rightarrow> new_env \<Rightarrow>
   (vfd_ptr \<times> virtwl_info) kres option" where
  "do_new H vi type size' nonblock env =
     (if type \<noteq> VIRTWL_IOCTL_NEW_CTX \<and> type \<noteq> VIRTWL_IOCTL_NEW_ALLOC then
        Some (Ret (ERR_PTR (- EINVAL), vi))
      else if \<not> kz_ctrl_new env then Some (Ret (ERR_PTR (- ENOMEM), vi))
      else
        (case virtwl_vfd_alloc vi (kz_new_vfd env) of
           (NULL, vi1) \<Rightarrow> Some (Ret (ERR_PTR (- ENOMEM), vi1))
         | (Err e, vi1) \<Rightarrow> Some Oops
         | (Obj p, vi1) \<Rightarrow>
             (case idr_alloc (vfds vi1) (idr_new_mem env) p 1 (VIRTWL_MAX_ALLOC H) of
                (ret, t) \<Rightarrow>
                  if ret \<le> 0 then
                    Some (Ret (ERR_PTR ret, virtwl_vfd_free (vi1\<lparr>vfds := t\<rparr>) p))
                  else
                    (case vfd_objs vi1 p of
                       None \<Rightarrow> Some Oops
                     | Some vfd \<Rightarrow>
                         (let vfd1 = vfd\<lparr>id_vfd := word_of_int ret\<rparr>;
                              vi2 = vi1\<lparr>vfds := t, vfd_objs := (vfd_objs vi1)(p \<mapsto> vfd1)\<rparr>;
                              ctrl_new =
                                (case type of
                                   VIRTWL_IOCTL_NEW_CTX \<Rightarrow>
                                     Some \<lparr>hdr_type = VIRTIO_WL_CMD_VFD_NEW_CTX,
                                           vfd_id = id_vfd vfd1,
                                           ctrl_flags = VIRTIO_WL_VFD_CONTROL H,
                                           ctrl_pfn = 0, ctrl_size = 0, vfd_count = 0,
                                           trailer = []\<rparr>
                                 | VIRTWL_IOCTL_NEW_ALLOC \<Rightarrow>
                                     Some \<lparr>hdr_type = VIRTIO_WL_CMD_VFD_NEW,
                                           vfd_id = id_vfd vfd1,
                                           ctrl_flags = VIRTIO_WL_VFD_WRITE H OR
                                                        VIRTIO_WL_VFD_MAP H,
                                           ctrl_pfn = 0, ctrl_size = size', vfd_count = 0,
                                           trailer = []\<rparr>
                                 | VIRTWL_IOCTL_NEW_OTHER x \<Rightarrow> None)
                          in case ctrl_new of
                               None \<Rightarrow> Some (do_new_remove_vfd vi2 p (- EINVAL))
                             | Some ctrl_new \<Rightarrow>
                          (case vq_queue_out vi2 ctrl_new nonblock (out_wakes env) of
                               None \<Rightarrow> None
                             | Some (ret, vi3) \<Rightarrow>
                                 if ret \<noteq> 0 then Some (do_new_remove_vfd vi3 p ret)
                                 else
                                   (case host_resp env of
                                      None \<Rightarrow> None
                                    | Some resp \<Rightarrow>
                                        (let vi4 = vi3\<lparr>vq_out :=
                                                     virtqueue_complete (vq_out vi3) ctrl_new\<rparr>;
                                             ret = virtwl_resp_err (hdr_type resp)
                                         in if ret \<noteq> 0 then Some (do_new_remove_vfd vi4 p ret)
                                            else Some (Ret (Obj p, vi4\<lparr>vfd_objs :=
                                              (vfd_objs vi4)(p \<mapsto> vfd1\<lparr>size_vfd := ctrl_size resp,
                                                 pfn := ctrl_pfn resp,
                                                 flags := ctrl_flags resp\<rparr>)\<rparr>))))))))))"

section \<open>Notions of the specification\<close>

text \<open>
  The declared payload length of an entry: what the host wrote after the fixed-size
  struct and the \<open>vfd_count\<close> identifiers.
\<close>

definition data_len :: "virtio_wl_h \<Rightarrow> virtwl_vfd_qentry \<Rightarrow> int" where
  "data_len H e =
     int (unat (len e)) - int (SIZEOF_CTRL_VFD_RECV H) - 4 * int (unat (vfd_count (hdr e)))"

text \<open>
  Both cursors of an entry have reached their bounds: the data-byte cursor the declared
  payload length, the handle cursor the declared handle count.
\<close>

definition cursors_at_bounds :: "virtio_wl_h \<Rightarrow> virtwl_vfd_qentry \<Rightarrow> bool" where
  "cursors_at_bounds H e \<longleftrightarrow>
     data_len H e \<le> int (unat (data_offset e)) \<and> vfd_count (hdr e) \<le> vfd_offset e"








section \<open>Values for evaluation\<close>

text \<open>
  A set of header constants, an idle queue and an empty device, used where the model is
  evaluated at a concrete input.
\<close>

definition H0 :: virtio_wl_h where
  "H0 = \<lparr>SIZEOF_CTRL_VFD_RECV = 16, VIRTIO_WL_VFD_WRITE = 1, VIRTIO_WL_VFD_MAP = 2,
         VIRTIO_WL_VFD_CONTROL = 4, VIRTWL_MAX_ALLOC = 2048\<rparr>"

definition vq0 :: virtqueue where
  "vq0 = \<lparr>num_free = 4, avail = [], used = [], kicks = 0\<rparr>"

definition vi0 :: virtwl_info where
  "vi0 = \<lparr>vq_in = vq0, vq_out = vq0, vfds = Map.empty, vfd_objs = Map.empty, klog = []\<rparr>"

text \<open>A receive message with \<open>n\<close> declared handles and the bytes \<open>bs\<close> after the header.\<close>

definition recv_msg :: "u32 \<Rightarrow> u8 list \<Rightarrow> ctrl_buf" where
  "recv_msg n bs = \<lparr>hdr_type = VIRTIO_WL_CMD_VFD_RECV, vfd_id = 1, ctrl_flags = 0,
                    ctrl_pfn = 0, ctrl_size = 0, vfd_count = n, trailer = bs\<rparr>"

text \<open>The queue entry \<^verbatim>\<open>vq_handle_recv\<close> makes of it, the host having written all of it.\<close>

definition recv_entry :: "u32 \<Rightarrow> u8 list \<Rightarrow> virtwl_vfd_qentry" where
  "recv_entry n bs = \<lparr>hdr = recv_msg n bs, len = 16 + word_of_nat (length bs),
                      vfd_offset = 0, data_offset = 0\<rparr>"


text \<open>A new-handle message with identifier \<open>i\<close>, and an environment where memory is there.\<close>

definition new_msg :: "u32 \<Rightarrow> ctrl_buf" where
  "new_msg i = \<lparr>hdr_type = VIRTIO_WL_CMD_VFD_NEW, vfd_id = i, ctrl_flags = 3,
                ctrl_pfn = 256, ctrl_size = 4096, vfd_count = 0, trailer = []\<rparr>"

definition env0 :: alloc_env where
  "env0 = \<lparr>kz_vfd = Some 7, idr_mem = True, kz_qentry = True\<rparr>"

text \<open>The device after the host has completed one receive buffer holding \<open>b\<close>.\<close>

definition pushed :: "ctrl_buf \<Rightarrow> virtwl_info" where
  "pushed b = vi0\<lparr>vq_in := vq0\<lparr>num_free := 0, used := [(b, 28)]\<rparr>\<rparr>"

text \<open>
  A device whose outbound queue is full, and a VFD object at address 7, registered at
  identifier 3, with one unread message queued.
\<close>

definition vi_full :: virtwl_info where
  "vi_full = vi0\<lparr>vq_out := vq0\<lparr>num_free := 0\<rparr>,
                vfds := [3 \<mapsto> 7],
                vfd_objs := [7 \<mapsto> \<lparr>id_vfd = 3, flags = 3, pfn = 256, size_vfd = 4096,
                                    in_queue = [recv_entry 0 [1, 2, 3]]\<rparr>]\<rparr>"

definition close_msg :: "u32 \<Rightarrow> ctrl_buf" where
  "close_msg i = \<lparr>hdr_type = VIRTIO_WL_CMD_VFD_CLOSE, vfd_id = i, ctrl_flags = 0,
                  ctrl_pfn = 0, ctrl_size = 0, vfd_count = 0, trailer = []\<rparr>"

text \<open>
  An environment of \<^verbatim>\<open>do_new\<close> where memory is there and the host answers
  out-of-memory, and the device with one VFD registered at identifier 1.
\<close>

definition oom_resp :: ctrl_buf where
  "oom_resp = \<lparr>hdr_type = VIRTIO_WL_RESP_OUT_OF_MEMORY, vfd_id = 2,
               ctrl_flags = 3, ctrl_pfn = 0, ctrl_size = 4096, vfd_count = 0, trailer = []\<rparr>"

definition env_oom :: new_env where
  "env_oom = \<lparr>kz_ctrl_new = True, kz_new_vfd = Some 9, idr_new_mem = True, out_wakes = [],
              host_resp = Some oom_resp\<rparr>"

definition vi_one :: virtwl_info where
  "vi_one = vi0\<lparr>vfds := [1 \<mapsto> 7],
               vfd_objs := [7 \<mapsto> \<lparr>id_vfd = 1, flags = 4, pfn = 0, size_vfd = 0,
                                   in_queue = []\<rparr>]\<rparr>"

text \<open>
  A mappable and writable VFD of size 4096, and three requests on it, all with write
  access: offset 0 and length 4096, offset 0 and length 8192, and length 8192 at the
  page offset \<open>2^52 - 2\<close>, the byte offset \<open>2^64 - 8192\<close>.
\<close>

definition vfd_4096 :: virtwl_vfd where
  "vfd_4096 = \<lparr>id_vfd = 3, flags = 3, pfn = 256, size_vfd = 4096, in_queue = []\<rparr>"

definition vma_4096 :: vm_area_struct where
  "vma_4096 = \<lparr>vm_start = 0x7F0000000000, vm_end = 0x7F0000001000, vm_pgoff = 0,
               vm_flags = 2\<rparr>"

definition vma_8192 :: vm_area_struct where
  "vma_8192 = \<lparr>vm_start = 0x7F0000000000, vm_end = 0x7F0000002000, vm_pgoff = 0,
               vm_flags = 2\<rparr>"

definition vma_wrap :: vm_area_struct where
  "vma_wrap = \<lparr>vm_start = 0x7F0000000000, vm_end = 0x7F0000002000,
               vm_pgoff = 0xFFFFFFFFFFFFE, vm_flags = 2\<rparr>"




section \<open>Facts about the constants\<close>

lemmas errno_defs =
  EAGAIN_def ENOMEM_def EACCES_def EFAULT_def EBUSY_def ENODEV_def EINVAL_def
  ENOSPC_def ERESTARTSYS_def

section \<open>Claim C8: host failure codes and local failure kinds\<close>

text \<open>
  C8 as stated: the four host failure codes (device unreliable, out-of-memory, unknown
  handle, unknown type) are mapped one-to-one, distinct codes to distinct local results.
  The code does not do that: the unknown-handle and the unknown-type acknowledgments are
  two distinct codes with the same local result, \<open>-EINVAL\<close>.
\<close>

theorem C8_resp_err_not_injective:
  "VIRTIO_WL_RESP_INVALID_ID \<noteq> VIRTIO_WL_RESP_INVALID_TYPE \<and>
   virtwl_resp_err VIRTIO_WL_RESP_INVALID_ID = virtwl_resp_err VIRTIO_WL_RESP_INVALID_TYPE"
  by simp

text \<open>
  C8 as amended: device-unreliable maps to \<open>-ENODEV\<close>, out-of-memory to \<open>-ENOMEM\<close>,
  unknown handle and unknown type both to \<open>-EINVAL\<close>; these three results are pairwise
  distinct and none is success; the two success acknowledgments map to 0.
\<close>

theorem C8_resp_err_mapping:
  "virtwl_resp_err VIRTIO_WL_RESP_ERR = - ENODEV \<and>
   virtwl_resp_err VIRTIO_WL_RESP_OUT_OF_MEMORY = - ENOMEM \<and>
   virtwl_resp_err VIRTIO_WL_RESP_INVALID_ID = - EINVAL \<and>
   virtwl_resp_err VIRTIO_WL_RESP_INVALID_TYPE = - EINVAL \<and>
   virtwl_resp_err VIRTIO_WL_RESP_OK = 0 \<and>
   virtwl_resp_err VIRTIO_WL_RESP_VFD_NEW = 0 \<and>
   - ENODEV \<noteq> - ENOMEM \<and> - ENODEV \<noteq> - EINVAL \<and> - ENOMEM \<noteq> - EINVAL \<and>
   - ENODEV \<noteq> (0::int) \<and> - ENOMEM \<noteq> (0::int) \<and> - EINVAL \<noteq> (0::int)"
  by (simp add: errno_defs)

section \<open>Draining bytes\<close>



lemma free_if_empty_fst:
  "fst (vfd_qentry_free_if_empty H vi e) =
     (if hdr_type (hdr e) = VIRTIO_WL_CMD_VFD_RECV \<and> \<not> cursors_at_bounds H e then [e] else [])"
  by (auto simp: vfd_qentry_free_if_empty_def cursors_at_bounds_def data_len_def Let_def
      split: prod.splits)










lemma to_read_eq:
  "int (unat (len e)) - int (SIZEOF_CTRL_VFD_RECV H + unat (vfd_count (hdr e)) * 4 + unat (data_offset e))
   = data_len H e - int (unat (data_offset e))"
  by (simp add: data_len_def del: of_nat_unat)

lemma buf_index: "(s::nat) + a * 4 + b - s = 4 * a + b"
  by simp

lemma clamp_min: "(if (tr::int) + rc > c then c - rc else tr) = min tr (c - rc)"
  by (simp add: min_def)

lemma vfd_out_loop_Cons:
  "vfd_out_loop H access cap vi rc out (e # rest) =
     (if int cap \<le> rc then (rc, out, e # rest, vi)
      else if data_len H e - int (unat (data_offset e)) \<le> 0 \<or>
              hdr_type (hdr e) \<noteq> VIRTIO_WL_CMD_VFD_RECV then
        (case vfd_out_loop H access cap vi rc out rest of
           (r, out', q, vi') \<Rightarrow> (r, out', e # q, vi'))
      else if \<not> access (nat rc)
                 (nat (min (data_len H e - int (unat (data_offset e))) (int cap - rc))) then
        ((if rc = 0 then - EFAULT else rc), out, e # rest, vi)
      else
        (case vfd_qentry_free_if_empty H vi
                (e\<lparr>data_offset := data_offset e +
                     word_of_int (min (data_len H e - int (unat (data_offset e)))
                                    (int cap - rc))\<rparr>) of
           (kept, vi') \<Rightarrow>
             (case vfd_out_loop H access cap vi'
                     (rc + min (data_len H e - int (unat (data_offset e))) (int cap - rc))
                     (out @ take (nat (min (data_len H e - int (unat (data_offset e)))
                                         (int cap - rc)))
                              (drop (4 * unat (vfd_count (hdr e)) + unat (data_offset e))
                                 (trailer (hdr e)))) rest of
                (r, out', q, vi'') \<Rightarrow> (r, out', kept @ q, vi''))))"
  by (simp only: vfd_out_loop.simps Let_def to_read_eq buf_index clamp_min)

declare vfd_out_loop.simps(2) [simp del]










section \<open>The dispatcher on new-handle messages\<close>

lemma step_new:
  assumes "used (vq_in vi) = (b, n) # rest" "hdr_type b = VIRTIO_WL_CMD_VFD_NEW"
  shows "vq_in_work_step vi env =
    Some (case vq_handle_new (vi\<lparr>vq_in := (vq_in vi)\<lparr>used := rest, num_free := num_free (vq_in vi) + 1\<rparr>\<rparr>) b (kz_vfd env) (idr_mem env) of
        Oops \<Rightarrow> Oops
      | Ret (return_vq, vi1) \<Rightarrow>
          if \<not> return_vq then Ret (False, vi1)
          else (case vq_return_inbuf_locked vi1 b of
                  (ret, vi2) \<Rightarrow>
                    if ret \<noteq> 0 then
                      Ret (True, vi2\<lparr>klog := klog vi2 @ [Failed_to_return_inbuf ret]\<rparr>)
                    else Ret (True, vi2)))"
  using assms by (simp add: vq_in_work_step_def virtqueue_get_buf_def vq_dispatch_hdr_def)

section \<open>Claim C10: a pushed handle with identifier 0\<close>

text \<open>
  C10: when the next completed receive buffer is a new-handle message whose identifier
  is 0, the dispatcher drops it silently: the handle table, the VFD objects and the
  kernel log stay as they are (no VFD is created, no invalid-id message is printed), and
  the buffer goes back to the inbound queue, which is to be kicked.
\<close>

theorem C10_zero_id_dropped_silently:
  assumes "used (vq_in vi) = (b, n) # rest" "hdr_type b = VIRTIO_WL_CMD_VFD_NEW" "vfd_id b = 0"
  shows "vq_in_work_step vi env =
           Some (Ret (True, vi\<lparr>vq_in := (vq_in vi)\<lparr>used := rest, avail := avail (vq_in vi) @ [b]\<rparr>\<rparr>))"
  using assms
  by (simp add: step_new vq_handle_new_def vq_return_inbuf_locked_def virtqueue_add_def)

text \<open>The same at a concrete device: one completed buffer, a new-handle message with identifier 0.\<close>

theorem C10_witness:
  "vq_in_work_step (pushed (new_msg 0)) env0 =
     Some (Ret (True, vi0\<lparr>vq_in := vq0\<lparr>num_free := 0, avail := [new_msg 0]\<rparr>\<rparr>))"
  using C10_zero_id_dropped_silently[of "pushed (new_msg 0)" "new_msg 0" 28 "[]" env0]
  by (simp add: pushed_def new_msg_def vi0_def vq0_def)

section \<open>Claim C6: validation of pushed handles\<close>

lemma invalid_id_logged:
  assumes "used (vq_in vi) = (b, n) # rest" "hdr_type b = VIRTIO_WL_CMD_VFD_NEW"
    "vfd_id b AND VFD_HOST_VFD_ID_BIT = 0 \<or> vfd_id b AND VFD_ILLEGAL_SIGN_BIT \<noteq> 0"
  shows "vq_in_work_step vi env =
           Some (Ret (True, vi\<lparr>vq_in := (vq_in vi)\<lparr>used := rest, avail := avail (vq_in vi) @ [b]\<rparr>,
                              klog := klog vi @ (if vfd_id b = 0 then [] else [Invalid_id (vfd_id b)])\<rparr>))"
  using assms
  by (auto simp add: step_new vq_handle_new_def vq_return_inbuf_locked_def virtqueue_add_def)

lemma sint_eq_uint32:
  assumes "uint (w::u32) < 2^31"
  shows "sint w = uint w"
proof -
  have "- (2 ^ 31) \<le> uint w"
    by (rule order_trans[of _ 0]) simp_all
  then have "signed_take_bit 31 (uint w) = uint w"
    using assms by (rule signed_take_bit_int_eq_self)
  then show ?thesis by (simp add: sint_uint)
qed

lemma sign_bit_clear:
  assumes "(i::u32) AND VFD_ILLEGAL_SIGN_BIT = 0"
  shows "uint i < 2^31"
proof -
  have "(0x80000000::u32) = 2 ^ 31" by simp
  then have "\<not> bit i 31"
    using assms and_exp_eq_0_iff_not_bit[of i 31] by (simp add: VFD_ILLEGAL_SIGN_BIT_def)
  then have "0 \<le> sint i"
    using bit_last_iff[of i] by simp
  moreover have "sint i < 2^31" using sint_lt[of i] by simp
  ultimately have "take_bit 32 (sint i) = sint i"
    by (simp add: take_bit_int_eq_self)
  then have "uint i = sint i" using uint_sint[of i] by simp
  then show ?thesis using \<open>sint i < 2^31\<close> by simp
qed

lemma idr_slot_exact: "idr_get_empty_slot t k k = (if t k = None then Some k else None)"
  by simp

declare idr_get_empty_slot.simps [simp del]

lemma idr_alloc_exact:
  assumes "(i::u32) AND VFD_ILLEGAL_SIGN_BIT = 0" "i \<noteq> 0"
  shows "idr_alloc t mem p (sint i) (sint (i + 1)) =
           (if \<not> mem then (- ENOMEM, t)
            else if t (uint i) = None then (uint i, t(uint i \<mapsto> p))
            else (- ENOSPC, t))"
proof -
  have lt: "uint i < 2^31" using sign_bit_clear[OF assms(1)] .
  have si: "sint i = uint i" using sint_eq_uint32[OF lt] .
  have u1: "uint (i + 1) = uint i + 1"
    using lt by (simp add: uint_word_ariths take_bit_int_eq_self)
  have mx: "(if sint (i + 1) > 0 then sint (i + 1) - 1 else INT_MAX) = uint i"
  proof (cases "uint i + 1 < 2^31")
    case True
    then have "sint (i + 1) = uint i + 1" using sint_eq_uint32[of "i + 1"] u1 by simp
    then show ?thesis by simp
  next
    case False
    then have e: "uint (i + 1) = 2147483648" using lt u1 by simp
    have "sint (i + 1) = - 2147483648"
      by (simp add: sint_uint e)
    then show ?thesis using False lt by (simp add: INT_MAX_def)
  qed
  show ?thesis
    unfolding idr_alloc_def Let_def mx si
    by (simp del: idr_get_empty_slot.simps add: idr_slot_exact)
qed


lemma host_bit_nonzero: "(i::u32) AND VFD_HOST_VFD_ID_BIT \<noteq> 0 \<Longrightarrow> i \<noteq> 0"
  by auto

lemma vq_handle_new_valid:
  assumes "vfd_id b AND VFD_HOST_VFD_ID_BIT \<noteq> 0" "vfd_id b AND VFD_ILLEGAL_SIGN_BIT = 0"
  shows "vq_handle_new vi b kz mem =
     (case kz of
        None \<Rightarrow> Oops
      | Some p \<Rightarrow>
          if mem \<and> vfds vi (uint (vfd_id b)) = None then
            Ret (True, vi\<lparr>vfds := (vfds vi)(uint (vfd_id b) \<mapsto> p),
                          vfd_objs := (vfd_objs vi)(p \<mapsto>
                            \<lparr>id_vfd = vfd_id b, flags = ctrl_flags b, pfn = ctrl_pfn b,
                             size_vfd = ctrl_size b, in_queue = []\<rparr>)\<rparr>)
          else
            Ret (True, vi\<lparr>vfd_objs := (vfd_objs vi)(p := None),
                          klog := klog vi @
                            [Failed_to_place_vfd (if mem then - ENOSPC else - ENOMEM)]\<rparr>))"
proof -
  have nz: "vfd_id b \<noteq> 0" using assms(1) by (rule host_bit_nonzero)
  have pos: "0 < uint (vfd_id b)"
    using nz by (simp add: less_le uint_0_iff)
  show ?thesis
    using assms nz pos
    by (auto simp: vq_handle_new_def Let_def virtwl_vfd_alloc_def ERR_PTR_def
          idr_alloc_exact virtwl_vfd_free_def errno_defs split: option.splits)
qed

text \<open>
  C6 as amended: a new-handle message whose identifier lacks the host-origin bit or has
  the sign bit is discarded: the handle table and the VFD objects stay as they are and
  the buffer goes back to the inbound queue; the invalid identifier is logged, except
  for identifier 0, which is discarded without a message. And whenever the dispatch of a
  new-handle message changes the handle table, the identifier has the host-origin bit
  and not the sign bit, that identifier was free, and a VFD carrying it is now
  registered at exactly that identifier.
\<close>

theorem C6_new_handle_validation:
  assumes "used (vq_in vi) = (b, n) # rest" "hdr_type b = VIRTIO_WL_CMD_VFD_NEW"
  shows "(vfd_id b AND VFD_HOST_VFD_ID_BIT = 0 \<or> vfd_id b AND VFD_ILLEGAL_SIGN_BIT \<noteq> 0 \<longrightarrow>
            vq_in_work_step vi env =
              Some (Ret (True, vi\<lparr>vq_in := (vq_in vi)\<lparr>used := rest, avail := avail (vq_in vi) @ [b]\<rparr>,
                klog := klog vi @ (if vfd_id b = 0 then [] else [Invalid_id (vfd_id b)])\<rparr>))) \<and>
         (\<forall>k vi'. vq_in_work_step vi env = Some (Ret (k, vi')) \<and> vfds vi' \<noteq> vfds vi \<longrightarrow>
            vfd_id b AND VFD_HOST_VFD_ID_BIT \<noteq> 0 \<and> vfd_id b AND VFD_ILLEGAL_SIGN_BIT = 0 \<and>
            (vfds vi (uint (vfd_id b)) = None \<and>
            (\<exists>p vfd. vfds vi' = (vfds vi)(uint (vfd_id b) \<mapsto> p) \<and>
                     vfd_objs vi' p = Some vfd \<and> id_vfd vfd = vfd_id b)))"
proof (intro conjI impI allI)
  assume "vfd_id b AND VFD_HOST_VFD_ID_BIT = 0 \<or> vfd_id b AND VFD_ILLEGAL_SIGN_BIT \<noteq> 0"
  then show "vq_in_work_step vi env =
      Some (Ret (True, vi\<lparr>vq_in := (vq_in vi)\<lparr>used := rest, avail := avail (vq_in vi) @ [b]\<rparr>,
        klog := klog vi @ (if vfd_id b = 0 then [] else [Invalid_id (vfd_id b)])\<rparr>))"
    using invalid_id_logged[OF assms] by simp
next
  fix k vi'
  assume a: "vq_in_work_step vi env = Some (Ret (k, vi')) \<and> vfds vi' \<noteq> vfds vi"
  have valid: "vfd_id b AND VFD_HOST_VFD_ID_BIT \<noteq> 0 \<and> vfd_id b AND VFD_ILLEGAL_SIGN_BIT = 0"
  proof (rule ccontr)
    assume "\<not> ?thesis"
    then have "vfd_id b AND VFD_HOST_VFD_ID_BIT = 0 \<or> vfd_id b AND VFD_ILLEGAL_SIGN_BIT \<noteq> 0"
      by blast
    from invalid_id_logged[OF assms this, of env] a show False by auto
  qed
  then show "vfd_id b AND VFD_HOST_VFD_ID_BIT \<noteq> 0" and "vfd_id b AND VFD_ILLEGAL_SIGN_BIT = 0"
    by simp_all
  have v1: "vfd_id b AND VFD_HOST_VFD_ID_BIT \<noteq> 0" and v2: "vfd_id b AND VFD_ILLEGAL_SIGN_BIT = 0"
    using valid by simp_all
  note st = step_new[OF assms, of env, unfolded vq_handle_new_valid[OF v1 v2]]
  have "vfds vi (uint (vfd_id b)) = None \<and>
        (\<exists>p vfd. vfds vi' = (vfds vi)(uint (vfd_id b) \<mapsto> p) \<and>
                     vfd_objs vi' p = Some vfd \<and> id_vfd vfd = vfd_id b)"
  proof (cases "kz_vfd env")
    case None
    then show ?thesis using a st by simp
  next
    case (Some p)
    show ?thesis
    proof (cases "idr_mem env \<and> vfds vi (uint (vfd_id b)) = None")
      case True
      then show ?thesis
        using a st Some
        by (auto simp: vq_return_inbuf_locked_def virtqueue_add_def)
    next
      case False
      then have "vfds vi' = vfds vi"
        using a st Some
        by (auto simp: vq_return_inbuf_locked_def virtqueue_add_def)
      then show ?thesis using a by simp
    qed
  qed
  then show "vfds vi (uint (vfd_id b)) = None"
    and "\<exists>p vfd. vfds vi' = (vfds vi)(uint (vfd_id b) \<mapsto> p) \<and>
                  vfd_objs vi' p = Some vfd \<and> id_vfd vfd = vfd_id b"
    by simp_all
qed

text \<open>
  C6 as stated: every message that fails the validation is logged. The message with
  identifier 0 fails it (the host-origin bit is not set) and leaves the kernel log as
  it was.
\<close>

theorem C6_zero_id_not_logged:
  "vfd_id (new_msg 0) AND VFD_HOST_VFD_ID_BIT = 0 \<and>
   (\<exists>vi'. vq_in_work_step (pushed (new_msg 0)) env0 = Some (Ret (True, vi')) \<and>
          klog vi' = klog (pushed (new_msg 0)))"
  by (simp add: vq_in_work_step_def virtqueue_get_buf_def vq_dispatch_hdr_def vq_handle_new_def
        vq_return_inbuf_locked_def virtqueue_add_def pushed_def new_msg_def vi0_def vq0_def)

text \<open>
  At concrete messages: identifier 5 is logged and discarded, identifier
  \<open>0x40000001\<close> is registered at \<open>0x40000001\<close>.
\<close>

theorem C6_witness:
  "vq_in_work_step (pushed (new_msg 5)) env0 =
     Some (Ret (True, vi0\<lparr>vq_in := vq0\<lparr>num_free := 0, avail := [new_msg 5]\<rparr>,
                        klog := [Invalid_id 5]\<rparr>)) \<and>
   (\<exists>vi'. vq_in_work_step (pushed (new_msg 0x40000001)) env0 = Some (Ret (True, vi')) \<and>
          vfds vi' = [0x40000001 \<mapsto> 7])"
proof -
  have u: "used (vq_in (pushed (new_msg 5))) = [(new_msg 5, 28)]"
    by (simp add: pushed_def vi0_def vq0_def)
  have t: "hdr_type (new_msg 5) = VIRTIO_WL_CMD_VFD_NEW" by (simp add: new_msg_def)
  have inv: "vfd_id (new_msg 5) AND VFD_HOST_VFD_ID_BIT = 0 \<or>
             vfd_id (new_msg 5) AND VFD_ILLEGAL_SIGN_BIT \<noteq> 0"
    by (simp add: new_msg_def VFD_HOST_VFD_ID_BIT_def)
  from C6_new_handle_validation[OF u t, of env0] inv
  have "vq_in_work_step (pushed (new_msg 5)) env0 =
      Some (Ret (True, (pushed (new_msg 5))\<lparr>vq_in := (vq_in (pushed (new_msg 5)))
          \<lparr>used := [], avail := avail (vq_in (pushed (new_msg 5))) @ [new_msg 5]\<rparr>,
        klog := klog (pushed (new_msg 5)) @
          (if vfd_id (new_msg 5) = 0 then [] else [Invalid_id (vfd_id (new_msg 5))])\<rparr>))"
    by blast
  also have "\<dots> = Some (Ret (True, vi0\<lparr>vq_in := vq0\<lparr>num_free := 0, avail := [new_msg 5]\<rparr>,
                        klog := [Invalid_id 5]\<rparr>))"
    by (simp add: pushed_def vi0_def vq0_def new_msg_def)
  finally have 1: "vq_in_work_step (pushed (new_msg 5)) env0 =
     Some (Ret (True, vi0\<lparr>vq_in := vq0\<lparr>num_free := 0, avail := [new_msg 5]\<rparr>,
                        klog := [Invalid_id 5]\<rparr>))" .
  have u': "used (vq_in (pushed (new_msg 0x40000001))) = [(new_msg 0x40000001, 28)]"
    by (simp add: pushed_def vi0_def vq0_def)
  have t': "hdr_type (new_msg 0x40000001) = VIRTIO_WL_CMD_VFD_NEW" by (simp add: new_msg_def)
  have v: "vfd_id (new_msg 0x40000001) AND VFD_HOST_VFD_ID_BIT \<noteq> 0"
    "vfd_id (new_msg 0x40000001) AND VFD_ILLEGAL_SIGN_BIT = 0"
    by (simp_all add: new_msg_def VFD_HOST_VFD_ID_BIT_def VFD_ILLEGAL_SIGN_BIT_def)
  have e: "kz_vfd env0 = Some 7" "idr_mem env0" by (simp_all add: env0_def)
  have i: "uint (vfd_id (new_msg 0x40000001)) = 0x40000001" by (simp add: new_msg_def)
  have g: "vfds (pushed (new_msg 0x40000001)) = Map.empty" by (simp add: pushed_def vi0_def)
  have 2: "\<exists>vi'. vq_in_work_step (pushed (new_msg 0x40000001)) env0 = Some (Ret (True, vi')) \<and>
          vfds vi' = [0x40000001 \<mapsto> 7]"
    unfolding step_new[OF u' t'] vq_handle_new_valid[OF v]
    by (simp add: e vq_return_inbuf_locked_def virtqueue_add_def i g)
  show ?thesis using 1 2 by (rule conjI)
qed

section \<open>The outbound queue under backpressure\<close>

declare vq_queue_out.simps [simp del]

lemma virtqueue_add_full: "num_free vq = 0 \<Longrightarrow> virtqueue_add vq b = (- ENOSPC, vq)"
  by (simp add: virtqueue_add_def)

lemma virtqueue_add_free:
  "0 < num_free vq \<Longrightarrow>
   virtqueue_add vq b = (0, vq\<lparr>num_free := num_free vq - 1, avail := avail vq @ [b]\<rparr>)"
  by (simp add: virtqueue_add_def)

lemma queue_out_nonblock_full:
  "num_free (vq_out vi) = 0 \<Longrightarrow> vq_queue_out vi req True ws = Some (- EAGAIN, vi)"
  by (simp add: vq_queue_out.simps[of vi req True ws] virtqueue_add_full)

lemma queue_out_block_asleep:
  "num_free (vq_out vi) = 0 \<Longrightarrow> vq_queue_out vi req False [] = None"
  by (simp add: vq_queue_out.simps[of vi req False "[]"] virtqueue_add_full)

lemma queue_out_block_timeout:
  "num_free (vq_out vi) = 0 \<Longrightarrow> vq_queue_out vi req False (Timed_out # ws) = Some (- EBUSY, vi)"
  by (simp add: vq_queue_out.simps[of vi req False "Timed_out # ws"] virtqueue_add_full)

lemma queue_out_block_woken:
  "num_free (vq_out vi) = 0 \<Longrightarrow>
   vq_queue_out vi req False (Woken vq' # ws) = vq_queue_out (vi\<lparr>vq_out := vq'\<rparr>) req False ws"
  by (simp add: vq_queue_out.simps[of vi req False "Woken vq' # ws"] virtqueue_add_full)

lemma queue_out_free:
  "0 < num_free (vq_out vi) \<Longrightarrow>
   vq_queue_out vi req nonblock ws =
     Some (0, vi\<lparr>vq_out := virtqueue_kick
                    ((vq_out vi)\<lparr>num_free := num_free (vq_out vi) - 1,
                                 avail := avail (vq_out vi) @ [req]\<rparr>)\<rparr>)"
  by (simp add: vq_queue_out.simps[of vi req nonblock ws] virtqueue_add_free errno_defs)

section \<open>Claim C4: submission while the transport is full\<close>

text \<open>
  C4 as amended: when the outbound queue has no free slot, a non-blocking caller gets
  \<open>-EAGAIN\<close> at once and nothing is submitted. A blocking caller sleeps on the
  slot-available condition (with an empty script it is still asleep); the first timeout
  that passes with no slot free ends the call with \<open>-EBUSY\<close>; woken to a queue with a
  free slot it submits the request and kicks the queue; woken to a queue that is full
  again it waits again.
\<close>

theorem C4_backpressure:
  assumes "num_free (vq_out vi) = 0"
  shows "vq_queue_out vi req True ws = Some (- EAGAIN, vi) \<and>
         vq_queue_out vi req False [] = None \<and>
         vq_queue_out vi req False (Timed_out # ws) = Some (- EBUSY, vi) \<and>
         (0 < num_free vq' \<longrightarrow>
            vq_queue_out vi req False (Woken vq' # ws) =
              Some (0, vi\<lparr>vq_out := virtqueue_kick
                            (vq'\<lparr>num_free := num_free vq' - 1, avail := avail vq' @ [req]\<rparr>)\<rparr>)) \<and>
         (num_free vq' = 0 \<longrightarrow>
            vq_queue_out vi req False (Woken vq' # ws) =
              vq_queue_out (vi\<lparr>vq_out := vq'\<rparr>) req False ws)"
  using assms
  by (simp add: queue_out_nonblock_full queue_out_block_asleep queue_out_block_timeout
        queue_out_block_woken queue_out_free)

text \<open>
  C4 as stated: the busy failure comes only if the timeout elapses repeatedly. With a
  full queue and a script of a single timeout the blocking call already returns
  \<open>-EBUSY\<close>.
\<close>

theorem C4_busy_after_one_timeout:
  "num_free (vq_out vi_full) = 0 \<and> length [Timed_out] = 1 \<and>
   vq_queue_out vi_full (close_msg 3) False [Timed_out] = Some (- EBUSY, vi_full)"
  by (simp add: queue_out_block_timeout vi_full_def vq0_def vi0_def)

text \<open>The three outcomes on a device whose outbound queue is full.\<close>

theorem C4_witness:
  "vq_queue_out vi_full (close_msg 3) True [] = Some (- EAGAIN, vi_full) \<and>
   vq_queue_out vi_full (close_msg 3) False [Timed_out] = Some (- EBUSY, vi_full) \<and>
   vq_queue_out vi_full (close_msg 3) False [Woken vq0] =
     Some (0, vi_full\<lparr>vq_out := vq0\<lparr>num_free := 3, avail := [close_msg 3], kicks := 1\<rparr>\<rparr>)"
proof -
  have f: "num_free (vq_out vi_full) = 0" by (simp add: vi_full_def vq0_def vi0_def)
  have g: "0 < num_free vq0" by (simp add: vq0_def)
  show ?thesis
    using C4_backpressure[OF f, of "close_msg 3" "[]" vq0] g
    by (simp add: vq0_def virtqueue_kick_def)
qed


section \<open>Close\<close>

lemma queue_out_frame:
  "vq_queue_out vi req nonblock ws = Some (r, vi1) \<Longrightarrow>
   vfds vi1 = vfds vi \<and> vfd_objs vi1 = vfd_objs vi \<and> vq_in vi1 = vq_in vi \<and> klog vi1 = klog vi"
proof (induction ws arbitrary: vi)
  case Nil
  then show ?case
    using queue_out_free[of vi req nonblock "[]"] queue_out_nonblock_full[of vi req "[]"]
      queue_out_block_asleep[of vi req]
    by (cases "num_free (vq_out vi) = 0"; cases nonblock) auto
next
  case (Cons w ws)
  show ?case
  proof (cases "num_free (vq_out vi) = 0")
    case False
    then show ?thesis using Cons.prems queue_out_free[of vi req nonblock "w # ws"] by auto
  next
    case True
    show ?thesis
    proof (cases w)
      case Timed_out
      then show ?thesis using Cons.prems True
        by (cases nonblock) (auto simp: queue_out_nonblock_full queue_out_block_timeout)
    next
      case (Woken vq')
      then show ?thesis using Cons.prems True Cons.IH[of "vi\<lparr>vq_out := vq'\<rparr>"]
        by (cases nonblock) (auto simp: queue_out_nonblock_full queue_out_block_woken)
    qed
  qed
qed

lemma queue_out_submitted:
  "vq_queue_out vi req nonblock ws = Some (0, vi1) \<Longrightarrow> req \<in> set (avail (vq_out vi1))"
proof (induction ws arbitrary: vi)
  case Nil
  then show ?case
    by (auto simp: vq_queue_out.simps[of vi req nonblock "[]"] virtqueue_add_def
          virtqueue_kick_def errno_defs split: prod.splits if_splits)
next
  case (Cons w ws)
  show ?case
  proof (cases "num_free (vq_out vi) = 0")
    case False
    then show ?thesis using Cons.prems queue_out_free[of vi req nonblock "w # ws"]
      by (auto simp: virtqueue_kick_def)
  next
    case True
    show ?thesis
    proof (cases w)
      case Timed_out
      then show ?thesis using Cons.prems True
        by (cases nonblock) (auto simp: queue_out_nonblock_full queue_out_block_timeout errno_defs)
    next
      case (Woken vq')
      then show ?thesis using Cons.prems True Cons.IH[of "vi\<lparr>vq_out := vq'\<rparr>"]
        by (cases nonblock) (auto simp: queue_out_nonblock_full queue_out_block_woken errno_defs)
    qed
  qed
qed

lemma return_inbuf_frame:
  "vfds (snd (vq_return_inbuf_locked v b)) = vfds v \<and>
   vfd_objs (snd (vq_return_inbuf_locked v b)) = vfd_objs v \<and>
   vq_out (snd (vq_return_inbuf_locked v b)) = vq_out v"
  by (simp add: vq_return_inbuf_locked_def split: prod.splits)

lemma flush_frame:
  "vfds (fold (\<lambda>qentry v. snd (vq_return_inbuf_locked v (hdr qentry))) q v) = vfds v \<and>
   vfd_objs (fold (\<lambda>qentry v. snd (vq_return_inbuf_locked v (hdr qentry))) q v) = vfd_objs v \<and>
   vq_out (fold (\<lambda>qentry v. snd (vq_return_inbuf_locked v (hdr qentry))) q v) = vq_out v"
  by (induction q arbitrary: v) (simp_all add: return_inbuf_frame)

lemma flush_returns_all:
  "length q \<le> num_free (vq_in v) \<Longrightarrow>
   vq_in (fold (\<lambda>qentry v. snd (vq_return_inbuf_locked v (hdr qentry))) q v) =
     (vq_in v)\<lparr>num_free := num_free (vq_in v) - length q,
               avail := avail (vq_in v) @ map hdr q\<rparr> \<and>
   klog (fold (\<lambda>qentry v. snd (vq_return_inbuf_locked v (hdr qentry))) q v) = klog v"
proof (induction q arbitrary: v)
  case Nil
  then show ?case by simp
next
  case (Cons e q)
  let ?v = "snd (vq_return_inbuf_locked v (hdr e))"
  have pos: "0 < num_free (vq_in v)" using Cons.prems by simp
  have 1: "vq_in ?v = (vq_in v)\<lparr>num_free := num_free (vq_in v) - 1,
                                 avail := avail (vq_in v) @ [hdr e]\<rparr>" and 2: "klog ?v = klog v"
    using pos by (simp_all add: vq_return_inbuf_locked_def virtqueue_add_free)
  have "length q \<le> num_free (vq_in ?v)" using Cons.prems 1 by simp
  from Cons.IH[OF this] show ?case using 1 2 by simp
qed

lemma queue_out_failed:
  "vq_queue_out vi req False ws = Some (ret, vi1) \<Longrightarrow> ret \<noteq> 0 \<Longrightarrow>
   ret = - EBUSY \<and> num_free (vq_out vi1) = 0 \<and>
   (vq_out vi1 = vq_out vi \<or> Woken (vq_out vi1) \<in> set ws)"
proof (induction ws arbitrary: vi)
  case Nil
  then show ?case
    using queue_out_free[of vi req False "[]"] queue_out_block_asleep[of vi req]
    by (cases "num_free (vq_out vi) = 0") auto
next
  case (Cons w ws)
  show ?case
  proof (cases "num_free (vq_out vi) = 0")
    case False
    then show ?thesis using Cons.prems queue_out_free[of vi req False "w # ws"] by auto
  next
    case True
    show ?thesis
    proof (cases w)
      case Timed_out
      then show ?thesis using Cons.prems True by (auto simp: queue_out_block_timeout)
    next
      case (Woken vq')
      then show ?thesis using Cons.prems True Cons.IH[of "vi\<lparr>vq_out := vq'\<rparr>"]
        by (auto simp: queue_out_block_woken)
    qed
  qed
qed

lemma close_no_memory:
  "vfd_objs vi p = Some vfd \<Longrightarrow> do_vfd_close vi p False ws ack = Returns (Ret (- ENOMEM, vi))"
  by (simp add: do_vfd_close_def)

lemma close_asleep:
  "vfd_objs vi p = Some vfd \<Longrightarrow> vq_queue_out vi (close_msg (id_vfd vfd)) False ws = None \<Longrightarrow>
   do_vfd_close vi p True ws ack = Asleep_in_queue_out"
  by (simp add: do_vfd_close_def close_msg_def[symmetric] Let_def)

lemma close_unfold:
  assumes "vfd_objs vi p = Some vfd"
    "vq_queue_out vi (close_msg (id_vfd vfd)) False ws = Some (ret, vi1)"
  shows "do_vfd_close vi p True ws ack =
     (if ret \<noteq> 0 then
        Returns (Ret (ret, vi1\<lparr>klog := klog vi1 @ [Failed_to_queue_close (id_vfd vfd) ret]\<rparr>))
      else if \<not> ack then Waits_for_completion vi1
      else Returns (Ret (0, virtwl_vfd_free
               (fold (\<lambda>qentry v. snd (vq_return_inbuf_locked v (hdr qentry))) (in_queue vfd)
                  (vi1\<lparr>vq_out := virtqueue_complete (vq_out vi1) (close_msg (id_vfd vfd)),
                       vfds := idr_remove (vfds vi1) (sint (id_vfd vfd))\<rparr>)) p)))"
proof -
  have o: "vfd_objs vi1 = vfd_objs vi" using queue_out_frame[OF assms(2)] by simp
  show ?thesis
    using assms o
    by (simp add: do_vfd_close_def close_msg_def[symmetric] Let_def virtwl_vfd_remove_def
          virtwl_vfd_lock_unlink_def)
qed

lemma close_refused:
  assumes obj: "vfd_objs vi p = Some vfd"
    and sub: "vq_queue_out vi (close_msg (id_vfd vfd)) False ws = Some (ret, vi1)"
    and ret: "ret \<noteq> 0"
  shows "do_vfd_close vi p True ws ack =
           Returns (Ret (- EBUSY, vi\<lparr>vq_out := vq_out vi1,
                          klog := klog vi @ [Failed_to_queue_close (id_vfd vfd) (- EBUSY)]\<rparr>)) \<and>
         num_free (vq_out vi1) = 0 \<and>
         (vq_out vi1 = vq_out vi \<or> Woken (vq_out vi1) \<in> set ws)"
proof -
  note fr = queue_out_frame[OF sub]
  note fl = queue_out_failed[OF sub ret]
  have "vi1\<lparr>klog := klog vi1 @ [Failed_to_queue_close (id_vfd vfd) ret]\<rparr> =
        vi\<lparr>vq_out := vq_out vi1,
           klog := klog vi @ [Failed_to_queue_close (id_vfd vfd) (- EBUSY)]\<rparr>"
    by (rule virtwl_info.equality) (simp_all add: fr fl)
  then show ?thesis using close_unfold[OF obj sub, of ack] ret fl by simp
qed

lemma close_waits:
  assumes obj: "vfd_objs vi p = Some vfd"
    and sub: "vq_queue_out vi (close_msg (id_vfd vfd)) False ws = Some (0, vi1)"
  shows "do_vfd_close vi p True ws False = Waits_for_completion vi1 \<and>
         close_msg (id_vfd vfd) \<in> set (avail (vq_out vi1)) \<and>
         vfds vi1 = vfds vi \<and> vfd_objs vi1 = vfd_objs vi \<and> vq_in vi1 = vq_in vi"
  using close_unfold[OF obj sub, of False] queue_out_frame[OF sub] queue_out_submitted[OF sub]
  by simp

lemma close_acknowledged:
  assumes obj: "vfd_objs vi p = Some vfd"
    and sub: "vq_queue_out vi (close_msg (id_vfd vfd)) False ws = Some (0, vi1)"
  shows "\<exists>vi'. do_vfd_close vi p True ws True = Returns (Ret (0, vi')) \<and>
           vfds vi' = (vfds vi)(sint (id_vfd vfd) := None) \<and>
           vfd_objs vi' = (vfd_objs vi)(p := None) \<and>
           (length (in_queue vfd) \<le> num_free (vq_in vi) \<longrightarrow>
              avail (vq_in vi') = avail (vq_in vi) @ map hdr (in_queue vfd))"
  using close_unfold[OF obj sub, of True] queue_out_frame[OF sub]
  by (auto simp: virtwl_vfd_free_def flush_frame flush_returns_all idr_remove_def)

lemma close_changes_only_after_ack:
  assumes obj: "vfd_objs vi p = Some vfd"
    and ret: "do_vfd_close vi p kz ws ack = Returns (Ret (r, vi'))"
    and ch: "vfds vi' \<noteq> vfds vi \<or> vfd_objs vi' \<noteq> vfd_objs vi \<or> vq_in vi' \<noteq> vq_in vi"
  shows "kz \<and> ack \<and> r = 0 \<and>
         (\<exists>vi1. vq_queue_out vi (close_msg (id_vfd vfd)) False ws = Some (0, vi1) \<and>
                close_msg (id_vfd vfd) \<in> set (avail (vq_out vi1)))"
proof -
  have kz: kz using ret ch close_no_memory[OF obj, of ws ack] by (cases kz) auto
  obtain ret' vi1 where
    sub: "vq_queue_out vi (close_msg (id_vfd vfd)) False ws = Some (ret', vi1)"
    using ret kz close_asleep[OF obj, of ws ack]
    by (cases "vq_queue_out vi (close_msg (id_vfd vfd)) False ws") auto
  note fr = queue_out_frame[OF sub]
  note cu = close_unfold[OF obj sub, of ack]
  have r0: "ret' = 0" using ret ch kz cu fr by (cases "ret' = 0") auto
  have ack: ack using ret kz r0 cu by (cases ack) auto
  have "r = 0" using ret kz r0 ack cu by auto
  moreover have "close_msg (id_vfd vfd) \<in> set (avail (vq_out vi1))"
    using queue_out_submitted[of vi "close_msg (id_vfd vfd)" False ws vi1] sub r0 by simp
  ultimately show ?thesis using kz ack r0 sub by simp
qed

section \<open>Claim C3: close waits for the acknowledgment\<close>

text \<open>
  C3 as amended, for a close of a live VFD. Without memory for the request, close
  returns \<open>-ENOMEM\<close> and the device is as before: the host is not notified and nothing
  is torn down. When the blocking submission refuses the request, the outbound queue
  having stayed full for a timeout, close returns \<open>-EBUSY\<close> and logs the failure; the
  outbound queue is as the call found it or as a wake-up showed it, full, with nothing
  added by the call, and the table, the VFD objects and the inbound queue are as before.
  When the submission queues the request, the request is among the buffers exposed to
  the host; as long as the host does not acknowledge, the call stays in
  \<^verbatim>\<open>wait_for_completion\<close> and the table, the VFD objects and the inbound queue are
  still as before; once the host has acknowledged, close returns 0 with the VFD unlinked
  from the table and freed, and its pending buffers given back to the inbound queue
  (there being a slot for each). So no return of close has changed the handle table,
  the VFD objects or the inbound queue unless the request was queued and the
  acknowledgment was observed. While the submission still sleeps for a free slot,
  close has not returned.
\<close>

theorem C3_close_after_acknowledgment:
  assumes obj: "vfd_objs vi p = Some vfd"
  shows "do_vfd_close vi p False ws ack = Returns (Ret (- ENOMEM, vi)) \<and>
         (\<forall>ret vi1. vq_queue_out vi (close_msg (id_vfd vfd)) False ws = Some (ret, vi1) \<and> ret \<noteq> 0 \<longrightarrow>
            do_vfd_close vi p True ws ack =
              Returns (Ret (- EBUSY, vi\<lparr>vq_out := vq_out vi1,
                             klog := klog vi @ [Failed_to_queue_close (id_vfd vfd) (- EBUSY)]\<rparr>)) \<and>
            num_free (vq_out vi1) = 0 \<and>
            (vq_out vi1 = vq_out vi \<or> Woken (vq_out vi1) \<in> set ws)) \<and>
         (\<forall>vi1. vq_queue_out vi (close_msg (id_vfd vfd)) False ws = Some (0, vi1) \<longrightarrow>
            close_msg (id_vfd vfd) \<in> set (avail (vq_out vi1)) \<and>
            do_vfd_close vi p True ws False = Waits_for_completion vi1 \<and>
            vfds vi1 = vfds vi \<and> vfd_objs vi1 = vfd_objs vi \<and> vq_in vi1 = vq_in vi \<and>
            (\<exists>vi'. do_vfd_close vi p True ws True = Returns (Ret (0, vi')) \<and>
               vfds vi' = (vfds vi)(sint (id_vfd vfd) := None) \<and>
               vfd_objs vi' = (vfd_objs vi)(p := None) \<and>
               (length (in_queue vfd) \<le> num_free (vq_in vi) \<longrightarrow>
                  avail (vq_in vi') = avail (vq_in vi) @ map hdr (in_queue vfd)))) \<and>
         (\<forall>kz a r vi'. do_vfd_close vi p kz ws a = Returns (Ret (r, vi')) \<and>
            (vfds vi' \<noteq> vfds vi \<or> vfd_objs vi' \<noteq> vfd_objs vi \<or> vq_in vi' \<noteq> vq_in vi) \<longrightarrow>
            kz \<and> a \<and> r = 0 \<and>
            (\<exists>vi1. vq_queue_out vi (close_msg (id_vfd vfd)) False ws = Some (0, vi1) \<and>
                   close_msg (id_vfd vfd) \<in> set (avail (vq_out vi1)))) \<and>
         (vq_queue_out vi (close_msg (id_vfd vfd)) False ws = None \<longrightarrow>
            do_vfd_close vi p True ws ack = Asleep_in_queue_out)"
proof -
  have A: "do_vfd_close vi p False ws ack = Returns (Ret (- ENOMEM, vi))"
    by (rule close_no_memory[OF obj])
  have B: "\<forall>ret vi1. vq_queue_out vi (close_msg (id_vfd vfd)) False ws = Some (ret, vi1) \<and> ret \<noteq> 0 \<longrightarrow>
            do_vfd_close vi p True ws ack =
              Returns (Ret (- EBUSY, vi\<lparr>vq_out := vq_out vi1,
                             klog := klog vi @ [Failed_to_queue_close (id_vfd vfd) (- EBUSY)]\<rparr>)) \<and>
            num_free (vq_out vi1) = 0 \<and>
            (vq_out vi1 = vq_out vi \<or> Woken (vq_out vi1) \<in> set ws)"
    using close_refused[OF obj] by blast
  have C: "\<forall>vi1. vq_queue_out vi (close_msg (id_vfd vfd)) False ws = Some (0, vi1) \<longrightarrow>
            close_msg (id_vfd vfd) \<in> set (avail (vq_out vi1)) \<and>
            do_vfd_close vi p True ws False = Waits_for_completion vi1 \<and>
            vfds vi1 = vfds vi \<and> vfd_objs vi1 = vfd_objs vi \<and> vq_in vi1 = vq_in vi \<and>
            (\<exists>vi'. do_vfd_close vi p True ws True = Returns (Ret (0, vi')) \<and>
               vfds vi' = (vfds vi)(sint (id_vfd vfd) := None) \<and>
               vfd_objs vi' = (vfd_objs vi)(p := None) \<and>
               (length (in_queue vfd) \<le> num_free (vq_in vi) \<longrightarrow>
                  avail (vq_in vi') = avail (vq_in vi) @ map hdr (in_queue vfd)))"
  proof (intro allI impI)
    fix vi1
    assume sub: "vq_queue_out vi (close_msg (id_vfd vfd)) False ws = Some (0, vi1)"
    show "close_msg (id_vfd vfd) \<in> set (avail (vq_out vi1)) \<and>
            do_vfd_close vi p True ws False = Waits_for_completion vi1 \<and>
            vfds vi1 = vfds vi \<and> vfd_objs vi1 = vfd_objs vi \<and> vq_in vi1 = vq_in vi \<and>
            (\<exists>vi'. do_vfd_close vi p True ws True = Returns (Ret (0, vi')) \<and>
               vfds vi' = (vfds vi)(sint (id_vfd vfd) := None) \<and>
               vfd_objs vi' = (vfd_objs vi)(p := None) \<and>
               (length (in_queue vfd) \<le> num_free (vq_in vi) \<longrightarrow>
                  avail (vq_in vi') = avail (vq_in vi) @ map hdr (in_queue vfd)))"
      using close_waits[OF obj sub] close_acknowledged[OF obj sub] by simp
  qed
  have D: "\<forall>kz a r vi'. do_vfd_close vi p kz ws a = Returns (Ret (r, vi')) \<and>
            (vfds vi' \<noteq> vfds vi \<or> vfd_objs vi' \<noteq> vfd_objs vi \<or> vq_in vi' \<noteq> vq_in vi) \<longrightarrow>
            kz \<and> a \<and> r = 0 \<and>
            (\<exists>vi1. vq_queue_out vi (close_msg (id_vfd vfd)) False ws = Some (0, vi1) \<and>
                   close_msg (id_vfd vfd) \<in> set (avail (vq_out vi1)))"
    using close_changes_only_after_ack[OF obj] by blast
  have E: "vq_queue_out vi (close_msg (id_vfd vfd)) False ws = None \<longrightarrow>
            do_vfd_close vi p True ws ack = Asleep_in_queue_out"
    using close_asleep[OF obj] by blast
  show ?thesis using A B C D E by blast
qed

text \<open>
  C3 as stated: close always succeeds locally in the end. On a device whose outbound
  queue stays full for the timeout, close of the VFD at address 7 returns \<open>-EBUSY\<close>
  although the host would acknowledge; the VFD is still registered at identifier 3 and
  still allocated, and only the kernel log has changed.
\<close>

theorem C3_close_fails_without_teardown:
  "do_vfd_close vi_full 7 True [Timed_out] True =
     Returns (Ret (- EBUSY, vi_full\<lparr>klog := [Failed_to_queue_close 3 (- EBUSY)]\<rparr>)) \<and>
   vfds vi_full 3 = Some 7 \<and> vfd_objs vi_full 7 \<noteq> None"
proof -
  have o: "vfd_objs vi_full 7 = Some \<lparr>id_vfd = 3, flags = 3, pfn = 256, size_vfd = 4096,
                                    in_queue = [recv_entry 0 [1, 2, 3]]\<rparr>"
    by (simp add: vi_full_def)
  have f: "num_free (vq_out vi_full) = 0" by (simp add: vi_full_def vq0_def vi0_def)
  have q: "vq_queue_out vi_full (close_msg 3) False [Timed_out] = Some (- EBUSY, vi_full)"
    using f by (rule queue_out_block_timeout)
  have k: "klog vi_full = []" by (simp add: vi_full_def vi0_def)
  show ?thesis
    using close_unfold[OF o, of "[Timed_out]" "- EBUSY" vi_full True] q k
    by (simp add: errno_defs) (simp add: vi_full_def)
qed

text \<open>
  The same close when a slot becomes free during the wait: the request is queued; the
  call waits with the VFD still registered and allocated; once the host has
  acknowledged, the VFD is gone, its one pending buffer back with the transport.
  Without memory for the request the close fails at once.
\<close>

theorem C3_witness:
  "do_vfd_close vi_full 7 False [Woken vq0] True = Returns (Ret (- ENOMEM, vi_full)) \<and>
   do_vfd_close vi_full 7 True [Woken vq0] False =
     Waits_for_completion
       (vi_full\<lparr>vq_out := vq0\<lparr>num_free := 3, avail := [close_msg 3], kicks := 1\<rparr>\<rparr>) \<and>
   (\<exists>vi'. do_vfd_close vi_full 7 True [Woken vq0] True = Returns (Ret (0, vi')) \<and>
          vfds vi' = Map.empty \<and> vfd_objs vi' = Map.empty \<and>
          avail (vq_in vi') = [recv_msg 0 [1, 2, 3]])"
proof -
  define vfd where "vfd = \<lparr>id_vfd = 3, flags = 3, pfn = 256, size_vfd = 4096,
                            in_queue = [recv_entry 0 [1, 2, 3]]\<rparr>"
  define vi1 where
    "vi1 = vi_full\<lparr>vq_out := vq0\<lparr>num_free := 3, avail := [close_msg 3], kicks := 1\<rparr>\<rparr>"
  have o: "vfd_objs vi_full 7 = Some vfd"
    by (simp add: vi_full_def vfd_def)
  have i: "id_vfd vfd = 3" and iq: "in_queue vfd = [recv_entry 0 [1, 2, 3]]"
    by (simp_all add: vfd_def)
  have f: "num_free (vq_out vi_full) = 0" by (simp add: vi_full_def vq0_def vi0_def)
  have g: "0 < num_free (vq_out (vi_full\<lparr>vq_out := vq0\<rparr>))" by (simp add: vq0_def)
  have q: "vq_queue_out vi_full (close_msg (id_vfd vfd)) False [Woken vq0] = Some (0, vi1)"
    using queue_out_block_woken[OF f, of "close_msg 3" vq0 "[]"]
      queue_out_free[OF g, of "close_msg 3" False "[]"]
    by (simp add: vq0_def virtqueue_kick_def i vi1_def)
  note T = C3_close_after_acknowledgment[OF o, of "[Woken vq0]" True]
  have 1: "do_vfd_close vi_full 7 False [Woken vq0] True = Returns (Ret (- ENOMEM, vi_full))"
    using T by (rule conjunct1)
  note C = T[THEN conjunct2, THEN conjunct2, THEN conjunct1, rule_format, OF q]
  have 3: "do_vfd_close vi_full 7 True [Woken vq0] False = Waits_for_completion vi1"
    using C by (elim conjE)
  have s: "length (in_queue vfd) \<le> num_free (vq_in vi_full)"
    by (simp add: iq vi_full_def vi0_def vq0_def)
  obtain vi' where c: "do_vfd_close vi_full 7 True [Woken vq0] True = Returns (Ret (0, vi'))"
    and t: "vfds vi' = (vfds vi_full)(sint (id_vfd vfd) := None)"
    and u: "vfd_objs vi' = (vfd_objs vi_full)(7 := None)"
    and v: "avail (vq_in vi') = avail (vq_in vi_full) @ map hdr (in_queue vfd)"
    using C s by blast
  have t': "vfds vi' = Map.empty" using t by (simp add: i vi_full_def)
  have u': "vfd_objs vi' = Map.empty" using u by (simp add: vi_full_def)
  have v': "avail (vq_in vi') = [recv_msg 0 [1, 2, 3]]"
    using v by (simp add: iq vi_full_def vi0_def vq0_def recv_entry_def)
  show ?thesis using 1 3 c t' u' v' by (simp add: vi1_def)
qed


section \<open>New requests\<close>

lemma idr_slot_free:
  "idr_get_empty_slot t i mx = Some k \<Longrightarrow> i \<le> k \<and> k \<le> mx \<and> t k = None"
proof (induction t i mx rule: idr_get_empty_slot.induct)
  case (1 t i mx)
  show ?case
  proof (cases "mx < i")
    case True
    then show ?thesis using "1.prems" by (simp add: idr_get_empty_slot.simps[of t i mx])
  next
    case False
    show ?thesis
    proof (cases "t i = None")
      case True
      then show ?thesis using "1.prems" False by (simp add: idr_get_empty_slot.simps[of t i mx])
    next
      case occ: False
      then have "idr_get_empty_slot t (i + 1) mx = Some k"
        using "1.prems" False by (auto simp add: idr_get_empty_slot.simps[of t i mx])
      from "1.IH"[OF False occ this] show ?thesis by simp
    qed
  qed
qed

lemma sint_word_of_int32: "0 \<le> k \<Longrightarrow> k < 2^31 \<Longrightarrow> sint (word_of_int k :: u32) = k"
proof -
  assume a: "0 \<le> k" "k < 2^31"
  have "- (2 ^ 31) \<le> k" by (rule order_trans[of _ 0]) (simp_all add: a)
  then have "signed_take_bit 31 k = k" using a(2) by (rule signed_take_bit_int_eq_self)
  then show ?thesis by (simp add: sint_sbintrunc')
qed

lemma queue_out_ret_indep:
  "vq_out vi = vq_out vj \<Longrightarrow>
   map_option fst (vq_queue_out vi req nonblock ws) = map_option fst (vq_queue_out vj req' nonblock ws)"
proof (induction ws arbitrary: vi vj)
  case Nil
  show ?case
  proof (cases "num_free (vq_out vi) = 0")
    case True
    then show ?thesis using Nil
      by (cases nonblock) (simp_all add: queue_out_nonblock_full queue_out_block_asleep)
  next
    case False
    then show ?thesis using Nil by (simp add: queue_out_free)
  qed
next
  case (Cons w ws)
  show ?case
  proof (cases "num_free (vq_out vi) = 0")
    case False
    then show ?thesis using Cons.prems by (simp add: queue_out_free)
  next
    case True
    show ?thesis
    proof (cases w)
      case Timed_out
      then show ?thesis using Cons.prems True
        by (cases nonblock) (simp_all add: queue_out_nonblock_full queue_out_block_timeout)
    next
      case (Woken vq')
      then show ?thesis
        using Cons.prems True Cons.IH[of "vi\<lparr>vq_out := vq'\<rparr>" "vj\<lparr>vq_out := vq'\<rparr>"]
        by (cases nonblock) (simp_all add: queue_out_nonblock_full queue_out_block_woken)
    qed
  qed
qed


section \<open>Claim C7: a New request the host refuses\<close>

text \<open>
  C7: a New request (create-context or create-allocation) reaches the host, and the
  acknowledgment carries a type that \<^verbatim>\<open>virtwl_resp_err\<close> maps to a failure (the explicit
  error, out-of-memory, invalid-id, invalid-type). Then \<^verbatim>\<open>do_new\<close> returns the
  error pointer of that failure, and the handle table and the VFD objects are as they
  were before the call: the new VFD is unregistered and freed. The request reaches the
  host when the allocations succeed (the new object at a fresh address \<open>p\<close>), the
  table has a free identifier \<open>k\<close> in \<open>[1, VIRTWL_MAX_ALLOC)\<close>, and the submission on
  the outbound queue as the call finds it succeeds.
\<close>

theorem C7_new_host_error:
  assumes ty: "type = VIRTWL_IOCTL_NEW_CTX \<or> type = VIRTWL_IOCTL_NEW_ALLOC"
    and kz: "kz_ctrl_new env" and obj: "kz_new_vfd env = Some p"
    and fresh: "vfd_objs vi p = None"
    and mem: "idr_new_mem env"
    and mx: "0 < VIRTWL_MAX_ALLOC H" "VIRTWL_MAX_ALLOC H \<le> 2 ^ 31"
    and slot: "idr_get_empty_slot (vfds vi) 1 (VIRTWL_MAX_ALLOC H - 1) = Some k"
    and sub: "map_option fst (vq_queue_out vi req nonblock (out_wakes env)) = Some 0"
    and resp: "host_resp env = Some resp"
    and err: "virtwl_resp_err (hdr_type resp) \<noteq> 0"
  shows "\<exists>vi'. do_new H vi type size' nonblock env =
                 Some (Ret (Err (virtwl_resp_err (hdr_type resp)), vi')) \<and>
               vfds vi' = vfds vi \<and> vfd_objs vi' = vfd_objs vi \<and> klog vi' = klog vi"
proof -
  let ?zero = "\<lparr>id_vfd = 0, flags = 0, pfn = 0, size_vfd = 0, in_queue = []\<rparr>"
  define vi1 where "vi1 = vi\<lparr>vfd_objs := (vfd_objs vi)(p \<mapsto> ?zero)\<rparr>"
  define vfd1 where "vfd1 = ?zero\<lparr>id_vfd := word_of_int k\<rparr>"
  define vi2 where "vi2 = vi1\<lparr>vfds := (vfds vi)(k \<mapsto> p), vfd_objs := (vfd_objs vi1)(p \<mapsto> vfd1)\<rparr>"
  define ctrl_new where "ctrl_new =
     (case type of
        VIRTWL_IOCTL_NEW_CTX \<Rightarrow>
          \<lparr>hdr_type = VIRTIO_WL_CMD_VFD_NEW_CTX, vfd_id = id_vfd vfd1,
           ctrl_flags = VIRTIO_WL_VFD_CONTROL H, ctrl_pfn = 0, ctrl_size = 0, vfd_count = 0,
           trailer = []\<rparr>
      | _ \<Rightarrow>
          \<lparr>hdr_type = VIRTIO_WL_CMD_VFD_NEW, vfd_id = id_vfd vfd1,
           ctrl_flags = VIRTIO_WL_VFD_WRITE H OR VIRTIO_WL_VFD_MAP H,
           ctrl_pfn = 0, ctrl_size = size', vfd_count = 0, trailer = []\<rparr>)"
  have kb: "1 \<le> k" "k < 2 ^ 31" and kfree: "vfds vi k = None"
    using idr_slot_free[OF slot] mx by simp_all
  have al: "virtwl_vfd_alloc vi (kz_new_vfd env) = (Obj p, vi1)"
    by (simp add: virtwl_vfd_alloc_def obj vi1_def)
  have ia: "idr_alloc (vfds vi1) (idr_new_mem env) p 1 (VIRTWL_MAX_ALLOC H) = (k, (vfds vi)(k \<mapsto> p))"
    using mx mem slot by (simp add: idr_alloc_def vi1_def)
  have "map_option fst (vq_queue_out vi2 ctrl_new nonblock (out_wakes env)) = Some 0"
    using queue_out_ret_indep[of vi2 vi ctrl_new nonblock "out_wakes env" req] sub
    by (simp add: vi2_def vi1_def)
  then obtain vi3 where q: "vq_queue_out vi2 ctrl_new nonblock (out_wakes env) = Some (0, vi3)"
    by auto
  note fr = queue_out_frame[OF q]
  define vi4 where "vi4 = vi3\<lparr>vq_out := virtqueue_complete (vq_out vi3) ctrl_new\<rparr>"
  have o4: "vfd_objs vi4 p = Some vfd1" and t4: "vfds vi4 = (vfds vi)(k \<mapsto> p)"
    and ob4: "vfd_objs vi4 = (vfd_objs vi)(p \<mapsto> vfd1)" and k4: "klog vi4 = klog vi"
    using fr by (simp_all add: vi4_def vi2_def vi1_def)
  have sid: "sint (id_vfd vfd1) = k"
    using kb by (simp add: vfd1_def sint_word_of_int32)
  have rm: "do_new_remove_vfd vi4 p (virtwl_resp_err (hdr_type resp)) =
              Ret (Err (virtwl_resp_err (hdr_type resp)),
                   vi4\<lparr>vfds := vfds vi, vfd_objs := vfd_objs vi\<rparr>)"
    using err kfree fresh
    by (simp add: do_new_remove_vfd_def virtwl_vfd_lock_unlink_def o4 sid idr_remove_def t4 ob4
          virtwl_vfd_free_def ERR_PTR_def fun_upd_idem)
  have "do_new H vi type size' nonblock env =
          Some (do_new_remove_vfd vi4 p (virtwl_resp_err (hdr_type resp)))"
  proof -
    have o1: "vfd_objs vi1 p = Some ?zero" by (simp add: vi1_def)
    have c: "(case type of
                VIRTWL_IOCTL_NEW_CTX \<Rightarrow>
                  Some \<lparr>hdr_type = VIRTIO_WL_CMD_VFD_NEW_CTX, vfd_id = id_vfd vfd1,
                        ctrl_flags = VIRTIO_WL_VFD_CONTROL H, ctrl_pfn = 0, ctrl_size = 0,
                        vfd_count = 0, trailer = []\<rparr>
              | VIRTWL_IOCTL_NEW_ALLOC \<Rightarrow>
                  Some \<lparr>hdr_type = VIRTIO_WL_CMD_VFD_NEW, vfd_id = id_vfd vfd1,
                        ctrl_flags = VIRTIO_WL_VFD_WRITE H OR VIRTIO_WL_VFD_MAP H,
                        ctrl_pfn = 0, ctrl_size = size', vfd_count = 0, trailer = []\<rparr>
              | VIRTWL_IOCTL_NEW_OTHER x \<Rightarrow> None) = Some ctrl_new"
      using ty by (auto simp: ctrl_new_def)
    have nk: "\<not> k \<le> 0" using kb(1) by simp
    have t: "\<not> (type \<noteq> VIRTWL_IOCTL_NEW_CTX \<and> type \<noteq> VIRTWL_IOCTL_NEW_ALLOC)"
      using ty by blast
    show ?thesis
      by (simp only: do_new_def al ia t kz nk o1 Let_def vfd1_def[symmetric] vi2_def[symmetric] c q resp
            vi4_def[symmetric] err if_False if_True not_True_eq_False not_False_eq_True
            prod.case vfd_ptr.case option.case simp_thms)
  qed
  then show ?thesis using rm k4 by simp
qed


text \<open>
  A create-allocation on a device with one VFD at identifier 1: the new VFD takes
  identifier 2, the host answers out-of-memory.
\<close>

lemma vi_one_slot: "idr_get_empty_slot (vfds vi_one) 1 (VIRTWL_MAX_ALLOC H0 - 1) = Some 2"
  by (simp add: idr_get_empty_slot.simps[of _ 1] idr_get_empty_slot.simps[of _ 2]
        vi_one_def H0_def)

theorem C7_witness:
  "\<exists>vi'. do_new H0 vi_one VIRTWL_IOCTL_NEW_ALLOC 4096 False env_oom =
            Some (Ret (Err (- ENOMEM), vi')) \<and>
          vfds vi' = [1 \<mapsto> 7] \<and> vfd_objs vi' = vfd_objs vi_one"
proof -
  have g: "0 < num_free (vq_out vi_one)" by (simp add: vi_one_def vi0_def vq0_def)
  have sub: "map_option fst (vq_queue_out vi_one oom_resp False (out_wakes env_oom)) = Some 0"
    by (simp add: queue_out_free[OF g])
  have e: "virtwl_resp_err (hdr_type oom_resp) \<noteq> 0"
    by (simp add: oom_resp_def errno_defs)
  have "\<exists>vi'. do_new H0 vi_one VIRTWL_IOCTL_NEW_ALLOC 4096 False env_oom =
                 Some (Ret (Err (virtwl_resp_err (hdr_type oom_resp)), vi')) \<and>
               vfds vi' = vfds vi_one \<and> vfd_objs vi' = vfd_objs vi_one \<and> klog vi' = klog vi_one"
    by (rule C7_new_host_error[where p=9 and k=2 and req=oom_resp, OF _ _ _ _ _ _ _ vi_one_slot sub _ e])
       (simp_all add: env_oom_def vi_one_def H0_def)
  then show ?thesis by (auto simp: oom_resp_def vi_one_def)
qed

section \<open>Receive\<close>







section \<open>Mapping: \<^verbatim>\<open>virtwl_vfd_mmap\<close>\<close>

text \<open>
  The checks come in the order of the source: a VFD without the mappable flag is refused
  whatever the request, then a request for write access on a VFD without the writable
  flag, both with \<^verbatim>\<open>-EACCES\<close>.
\<close>

lemma mmap_not_mappable:
  "flags vfd AND VIRTIO_WL_VFD_MAP H = 0 \<Longrightarrow> virtwl_vfd_mmap H vfd vma r = (- EACCES, vma)"
  by (simp add: virtwl_vfd_mmap_def)

lemma mmap_not_writable:
  "flags vfd AND VIRTIO_WL_VFD_MAP H \<noteq> 0 \<Longrightarrow> vm_flags vma AND VM_WRITE \<noteq> 0 \<Longrightarrow>
   flags vfd AND VIRTIO_WL_VFD_WRITE H = 0 \<Longrightarrow> virtwl_vfd_mmap H vfd vma r = (- EACCES, vma)"
  by (simp add: virtwl_vfd_mmap_def)

text \<open>
  The range check, for a request whose byte offset plus length stays below \<open>2^64\<close>:
  it is refused with \<^verbatim>\<open>-EINVAL\<close> exactly when offset plus length exceeds the
  page-aligned size. The alignment is computed in the 32 bits of \<^verbatim>\<open>vfd->size\<close>.
\<close>

lemma mmap_range:
  assumes "flags vfd AND VIRTIO_WL_VFD_MAP H \<noteq> 0"
    "vm_flags vma AND VM_WRITE = 0 \<or> flags vfd AND VIRTIO_WL_VFD_WRITE H \<noteq> 0"
    "unat (vm_pgoff vma) * PAGE_SIZE + unat (vm_end vma - vm_start vma) < 2 ^ 64"
  shows "virtwl_vfd_mmap H vfd vma r =
     (if unat (vm_pgoff vma) * PAGE_SIZE + unat (vm_end vma - vm_start vma)
           > unat (PAGE_ALIGN (size_vfd vfd))
      then (- EINVAL, vma)
      else if r \<noteq> 0 then (r, vma)
      else (0, vma\<lparr>vm_flags := vm_flags vma OR VM_PFNMAP OR VM_IO OR VM_DONTEXPAND OR VM_DONTDUMP\<rparr>))"
proof -
  let ?s = "vm_end vma - vm_start vma"
  have sh: "unat (push_bit PAGE_SHIFT (vm_pgoff vma)) = unat (vm_pgoff vma) * PAGE_SIZE"
  proof -
    have "unat (vm_pgoff vma) * 4096 < 2 ^ 64" using assms(3) by (simp add: PAGE_SIZE_def)
    then have "unat (vm_pgoff vma * 4096) = unat (vm_pgoff vma) * 4096"
      by (simp add: unat_word_ariths)
    then show ?thesis by (simp add: PAGE_SHIFT_def PAGE_SIZE_def push_bit_eq_mult)
  qed
  have "unat ?s + unat (vm_pgoff vma) * PAGE_SIZE < 2 ^ 64" using assms(3) by simp
  then have u: "unat (?s + push_bit PAGE_SHIFT (vm_pgoff vma)) =
          unat ?s + unat (vm_pgoff vma) * PAGE_SIZE"
    using sh by (simp add: unat_word_ariths)
  have "(?s + push_bit PAGE_SHIFT (vm_pgoff vma) > ucast (PAGE_ALIGN (size_vfd vfd))) =
        (unat (vm_pgoff vma) * PAGE_SIZE + unat ?s > unat (PAGE_ALIGN (size_vfd vfd)))"
  proof -
    have "unat (PAGE_ALIGN (size_vfd vfd)) < 2 ^ 64"
      using unsigned_less[of "PAGE_ALIGN (size_vfd vfd)", where 'a=nat]
      by (rule order_less_trans) simp
    then have "unat (ucast (PAGE_ALIGN (size_vfd vfd)) :: u64) = unat (PAGE_ALIGN (size_vfd vfd))"
      by (simp add: unsigned_ucast_eq take_bit_nat_eq_self)
    then show ?thesis using u by (simp add: word_less_nat_alt add.commute)
  qed
  then show ?thesis
    using assms(1,2) by (auto simp: virtwl_vfd_mmap_def Let_def)
qed

lemma page_align_4096: "PAGE_ALIGN 4096 = 4096"
  by (simp add: PAGE_ALIGN_def PAGE_SIZE_def)

text \<open>
  The scenario of the specification: on a mappable and writable VFD of size 4096, a
  request at offset 0 of length 4096 succeeds and one of length 8192 fails with
  \<^verbatim>\<open>-EINVAL\<close>.
\<close>

lemma mmap_scenario:
  assumes "flags vfd AND VIRTIO_WL_VFD_MAP H \<noteq> 0" "flags vfd AND VIRTIO_WL_VFD_WRITE H \<noteq> 0"
    "size_vfd vfd = 4096" "vm_pgoff vma = 0"
  shows "(vm_end vma - vm_start vma = 4096 \<longrightarrow>
            virtwl_vfd_mmap H vfd vma 0 =
              (0, vma\<lparr>vm_flags := vm_flags vma OR VM_PFNMAP OR VM_IO OR VM_DONTEXPAND OR VM_DONTDUMP\<rparr>)) \<and>
         (vm_end vma - vm_start vma = 8192 \<longrightarrow> virtwl_vfd_mmap H vfd vma r = (- EINVAL, vma))"
proof -
  have nw: "unat (vm_pgoff vma) * PAGE_SIZE + unat (vm_end vma - vm_start vma) < 2 ^ 64"
    using unsigned_less[of "vm_end vma - vm_start vma", where 'a=nat] assms(4) by simp
  show ?thesis
    using mmap_range[OF assms(1) disjI2[OF assms(2)] nw] assms(3,4)
    by (auto simp: page_align_4096)
qed

lemma mmap_4096_8192:
  "fst (virtwl_vfd_mmap H0 vfd_4096 vma_4096 0) = 0 \<and>
   fst (virtwl_vfd_mmap H0 vfd_4096 vma_8192 0) = - EINVAL"
  by (simp add: virtwl_vfd_mmap_def vfd_4096_def vma_4096_def vma_8192_def H0_def
        page_align_4096 PAGE_SHIFT_def PAGE_SIZE_def VM_WRITE_def Let_def)

text \<open>
  Claim C5, where the source departs from it. The claim: every map request whose offset
  plus length exceeds the page-aligned declared size is rejected as out of range. The
  source computes \<^verbatim>\<open>vm_size + (vma->vm_pgoff << PAGE_SHIFT)\<close> in
  \<^verbatim>\<open>unsigned long\<close>, where the sum wraps. On the mappable and writable VFD of
  aligned size 4096, the request of 8192 bytes at the byte offset \<open>2^64 - 8192\<close> has
  offset plus length \<open>2^64\<close>, far beyond 4096; the wrapped sum is 0, the check passes
  and \<^verbatim>\<open>virtwl_vfd_mmap\<close> returns 0 after remapping 8192 bytes.
\<close>

theorem C5_mmap_offset_wraps:
  "flags vfd_4096 AND VIRTIO_WL_VFD_MAP H0 \<noteq> 0 \<and>
   flags vfd_4096 AND VIRTIO_WL_VFD_WRITE H0 \<noteq> 0 \<and>
   unat (PAGE_ALIGN (size_vfd vfd_4096)) = 4096 \<and>
   unat (vm_pgoff vma_wrap) * PAGE_SIZE = 2 ^ 64 - 8192 \<and>
   unat (vm_end vma_wrap - vm_start vma_wrap) = 8192 \<and>
   fst (virtwl_vfd_mmap H0 vfd_4096 vma_wrap 0) = 0"
  by (simp add: virtwl_vfd_mmap_def vfd_4096_def vma_wrap_def H0_def page_align_4096
        PAGE_SHIFT_def PAGE_SIZE_def VM_WRITE_def Let_def)

section \<open>Release of a queue entry\<close>

text \<open>
  \<^verbatim>\<open>vfd_qentry_free_if_empty\<close> itself decides as specified: called on an entry of a
  receive message, it returns the buffer to the in queue, unlinks the entry and kicks
  exactly when both cursors have reached their bounds, and otherwise changes nothing.
\<close>

lemma free_if_empty_decision:
  assumes "hdr_type (hdr e) = VIRTIO_WL_CMD_VFD_RECV"
  shows "vfd_qentry_free_if_empty H vi e =
     (if cursors_at_bounds H e then
        ([], (snd (vq_return_inbuf_locked vi (hdr e)))
               \<lparr>vq_in := virtqueue_kick (vq_in (snd (vq_return_inbuf_locked vi (hdr e))))\<rparr>)
      else ([e], vi))"
  using assms
  by (auto simp: vfd_qentry_free_if_empty_def cursors_at_bounds_def data_len_def Let_def
        split: prod.splits)

lemma kept_unfinished:
  "x \<in> set (fst (vfd_qentry_free_if_empty H vi e)) \<Longrightarrow> x = e \<and> \<not> cursors_at_bounds H x"
  by (auto simp: free_if_empty_fst split: if_splits)

text \<open>
  So the entries the byte drain leaves in the queue are entries it did not touch or
  entries whose cursors have not both reached their bounds.
\<close>

lemma byte_drain_keeps_unfinished:
  "x \<in> set (fst (snd (snd (vfd_out_loop H access cap vi rc out q)))) \<Longrightarrow>
   x \<in> set q \<or> \<not> cursors_at_bounds H x"
proof (induction q arbitrary: vi rc out)
  case Nil
  then show ?case by simp
next
  case (Cons e rest)
  let ?t = "min (data_len H e - int (unat (data_offset e))) (int cap - rc)"
  let ?e = "e\<lparr>data_offset := data_offset e + word_of_int ?t\<rparr>"
  consider (stop) "int cap \<le> rc"
    | (skip) "\<not> int cap \<le> rc" "data_len H e - int (unat (data_offset e)) \<le> 0 \<or>
              hdr_type (hdr e) \<noteq> VIRTIO_WL_CMD_VFD_RECV"
    | (fault) "\<not> int cap \<le> rc" "\<not> (data_len H e - int (unat (data_offset e)) \<le> 0 \<or>
              hdr_type (hdr e) \<noteq> VIRTIO_WL_CMD_VFD_RECV)" "\<not> access (nat rc) (nat ?t)"
    | (copy) "\<not> int cap \<le> rc" "\<not> (data_len H e - int (unat (data_offset e)) \<le> 0 \<or>
              hdr_type (hdr e) \<noteq> VIRTIO_WL_CMD_VFD_RECV)" "access (nat rc) (nat ?t)"
    by blast
  then show ?case
  proof cases
    case stop
    then show ?thesis using Cons.prems by (simp add: vfd_out_loop_Cons)
  next
    case skip
    then have "fst (snd (snd (vfd_out_loop H access cap vi rc out (e # rest)))) =
                 e # fst (snd (snd (vfd_out_loop H access cap vi rc out rest)))"
      by (simp add: vfd_out_loop_Cons split: prod.splits del: of_nat_unat)
    then show ?thesis using Cons.prems Cons.IH[of vi rc out] by auto
  next
    case fault
    then have "fst (snd (snd (vfd_out_loop H access cap vi rc out (e # rest)))) = e # rest"
      by (simp add: vfd_out_loop_Cons del: of_nat_unat)
    then show ?thesis using Cons.prems by simp
  next
    case copy
    obtain kept vi1 where k: "vfd_qentry_free_if_empty H vi ?e = (kept, vi1)" by fastforce
    let ?out = "out @ take (nat ?t) (drop (4 * unat (vfd_count (hdr e)) + unat (data_offset e))
                                       (trailer (hdr e)))"
    have "fst (snd (snd (vfd_out_loop H access cap vi rc out (e # rest)))) =
            kept @ fst (snd (snd (vfd_out_loop H access cap vi1 (rc + ?t) ?out rest)))"
      using copy k by (simp add: vfd_out_loop_Cons split: prod.splits del: of_nat_unat)
    then have "x \<in> set kept \<or>
               x \<in> set (fst (snd (snd (vfd_out_loop H access cap vi1 (rc + ?t) ?out rest))))"
      using Cons.prems by simp
    then show ?thesis
      using kept_unfinished[of x H vi ?e] k Cons.IH[of vi1 "rc + ?t" ?out] by auto
  qed
qed

text \<open>
  The drains call it only after they have copied something out of the entry. A receive
  message with no handle and no payload byte is queued by \<^verbatim>\<open>vq_handle_recv\<close> like
  any other; both cursors of its entry are at their bounds from the start; the byte drain
  passes it by on \<^verbatim>\<open>to_read <= 0\<close> and the handle drain on
  \<^verbatim>\<open>vfds_to_read <= 0\<close>, before the call.
\<close>

lemma empty_message_queued:
  "vq_handle_recv vi_one (recv_msg 0 []) 16 True =
     Ret (False, vi_one\<lparr>vfd_objs := (vfd_objs vi_one)(7 \<mapsto>
       \<lparr>id_vfd = 1, flags = 4, pfn = 0, size_vfd = 0, in_queue = [recv_entry 0 []]\<rparr>)\<rparr>)"
  by (simp add: vq_handle_recv_def vi_one_def vi0_def idr_find_def recv_msg_def recv_entry_def)

lemma empty_entry_at_bounds: "cursors_at_bounds H0 (recv_entry 0 [])"
  by (simp add: cursors_at_bounds_def data_len_def recv_entry_def recv_msg_def H0_def)

lemma empty_entry_bytes_skipped:
  "vfd_out_locked H0 access cap vi [recv_entry 0 []] = (0, [], [recv_entry 0 []], vi)"
  by (simp add: vfd_out_locked_def vfd_out_loop_Cons data_len_def recv_entry_def recv_msg_def
        H0_def)

lemma empty_entry_handles_skipped:
  "vfd_out_vfds_locked H0 count vi [recv_entry 0 []] = ([], [recv_entry 0 []], vi)"
  by (simp add: vfd_out_vfds_locked_def recv_entry_def recv_msg_def Let_def)

text \<open>
  Claim C1, where the source departs from it. The claim: an entry is released exactly
  when its byte cursor has reached the declared payload length and its handle cursor the
  declared handle count. The entry of an empty receive message has both cursors at their
  bounds, and yet both drains, with any buffer capacity and any handle count, leave it
  linked in the pending queue and return nothing to the in queue.
\<close>

theorem C1_empty_entry_never_released:
  "cursors_at_bounds H0 (recv_entry 0 []) \<and>
   vfd_out_locked H0 access cap vi [recv_entry 0 []] = (0, [], [recv_entry 0 []], vi) \<and>
   vfd_out_vfds_locked H0 count vi [recv_entry 0 []] = ([], [recv_entry 0 []], vi)"
  using empty_entry_at_bounds empty_entry_bytes_skipped empty_entry_handles_skipped by blast

text \<open>
  A consequence: \<^verbatim>\<open>virtwl_vfd_recv\<close> on a VFD whose queue holds only such an entry
  never returns. The queue is not empty, so it does not sleep, and both drains come back
  empty, so it jumps back to \<^verbatim>\<open>again\<close>.
\<close>

lemma recv_spins_on_empty_entry:
  assumes "virtwl_vfd_recv H nonblock access cap count p sl vi = Some y"
  shows "\<not> (H = H0 \<and> (\<exists>vfd. vfd_objs vi p = Some vfd \<and> in_queue vfd = [recv_entry 0 []]))"
  by (rule virtwl_vfd_recv.raw_induct[OF _ assms])
     (fastforce simp: empty_entry_bytes_skipped empty_entry_handles_skipped split: if_splits)

lemma recv_livelock:
  "vfd_objs vi p = Some vfd \<Longrightarrow> in_queue vfd = [recv_entry 0 []] \<Longrightarrow>
   virtwl_vfd_recv H0 nonblock access cap count p sl vi = None"
  using recv_spins_on_empty_entry[of H0 nonblock access cap count p sl vi]
  by (cases "virtwl_vfd_recv H0 nonblock access cap count p sl vi") auto

section \<open>Draining handles\<close>



















declare vfd_out_vfds_loop.simps(2) [simp del]







section \<open>What a receive call delivers\<close>








section \<open>Claim C2: partial receives lose and repeat nothing\<close>






section \<open>Claim C9: what a receive call returns, and when it blocks\<close>











end
